(* ===== verification/Py_Prelude.thy ===== *)
theory Py_Prelude
  imports Main
begin

text \<open>
  Shared vocabulary of the development: the Python exceptions the script can raise,
  the part of the world it touches (a flat file system and standard output), and a
  small exception-and-state monad \<open>'a exec\<close> in which every function of
  \<^verbatim>\<open>src/dnsconfig.py\<close> is modelled.  A computation takes the world and returns either
  an abort (a raised exception or \<^verbatim>\<open>SystemExit\<close>) or a value, together with the
  world as it is at that moment: a file truncated before an exception stays truncated.
  The collection \<open>exec_simps\<close> gathers the monad laws the component proofs rewrite with.
\<close>

named_theorems exec_simps "rewrite rules of the exception-and-state monad"

subsection \<open>Exceptions and aborts\<close>

text \<open>The Python exceptions that can leave a function of the script.\<close>

datatype py_exc =
    FileNotFoundError string   \<comment> \<open>\<^verbatim>\<open>open(p, "r")\<close> on a path that does not exist\<close>
  | IndexError                 \<comment> \<open>a list index out of range\<close>
  | UnboundLocalError string   \<comment> \<open>a local variable read before any assignment\<close>

text \<open>An abort is a raised exception or the \<^verbatim>\<open>SystemExit\<close> that \<^verbatim>\<open>exit()\<close> raises.\<close>

datatype abort = Raise py_exc | SystemExit

subsection \<open>The world\<close>

text \<open>
  The file system is a map from path strings to file contents (raw characters as
  stored on disk); standard output is the text printed so far.
\<close>

record world =
  files :: "string \<rightharpoonup> string"
  stdout :: string

type_synonym 'a exec = "world \<Rightarrow> (abort + 'a) \<times> world"

text \<open>
  A \<^verbatim>\<open>HOST:\<close> or \<^verbatim>\<open>DOMAIN:\<close> entry of \<^verbatim>\<open>host.conf\<close>, kept as the script keeps
  it: the tuple \<open>(name, record type, value)\<close> read positionally.
\<close>

type_synonym entry = "string \<times> string \<times> string"

subsection \<open>The exception-and-state monad\<close>

definition ex_return :: "'a \<Rightarrow> 'a exec" where
  "ex_return a w = (Inr a, w)"

definition ex_raise :: "py_exc \<Rightarrow> 'a exec" where
  "ex_raise e w = (Inl (Raise e), w)"

definition ex_bind :: "'a exec \<Rightarrow> ('a \<Rightarrow> 'b exec) \<Rightarrow> 'b exec" where
  "ex_bind m f w = (case m w of (Inl e, w') \<Rightarrow> (Inl e, w') | (Inr a, w') \<Rightarrow> f a w')"

text \<open>A pure computation that may raise, lifted into the monad.\<close>

definition ex_lift :: "py_exc + 'a \<Rightarrow> 'a exec" where
  "ex_lift r w = (case r of Inl e \<Rightarrow> (Inl (Raise e), w) | Inr a \<Rightarrow> (Inr a, w))"

text \<open>Sequencing of pure computations that may raise.\<close>

definition sbind :: "'e + 'a \<Rightarrow> ('a \<Rightarrow> 'e + 'b) \<Rightarrow> 'e + 'b" where
  "sbind r f = (case r of Inl e \<Rightarrow> Inl e | Inr a \<Rightarrow> f a)"

lemma ex_bind_return [simp, exec_simps]: "ex_bind (ex_return a) f = f a"
  by (simp add: ex_bind_def ex_return_def fun_eq_iff)

lemma ex_return_bind [simp, exec_simps]: "ex_bind m ex_return = m"
  by (auto simp: ex_bind_def ex_return_def fun_eq_iff split: prod.splits sum.splits)

text \<open>A block that ends by returning \<open>None\<close> adds nothing to the statement before it.\<close>

lemma ex_return_unit_bind [simp, exec_simps]: "ex_bind m (\<lambda>_. ex_return ()) = (m :: unit exec)"
proof -
  have "(\<lambda>_ :: unit. ex_return ()) = ex_return" by (rule ext) simp
  then show ?thesis by simp
qed

lemma ex_bind_assoc [simp, exec_simps]:
  "ex_bind (ex_bind m f) g = ex_bind m (\<lambda>a. ex_bind (f a) g)"
  by (auto simp: ex_bind_def fun_eq_iff split: prod.splits sum.splits)

lemma ex_bind_raise [simp, exec_simps]: "ex_bind (ex_raise e) f = ex_raise e"
  by (simp add: ex_bind_def ex_raise_def fun_eq_iff)

lemma ex_bind_apply [exec_simps]:
  "m w = (Inr a, w') \<Longrightarrow> ex_bind m f w = f a w'"
  "m w = (Inl e, w') \<Longrightarrow> ex_bind m f w = (Inl e, w')"
  by (simp_all add: ex_bind_def)

lemma ex_lift_simps [simp, exec_simps]:
  "ex_lift (Inr a) = ex_return a"
  "ex_lift (Inl e) = ex_raise e"
  by (simp_all add: ex_lift_def ex_return_def ex_raise_def fun_eq_iff)

lemma ex_return_apply [simp, exec_simps]: "ex_return a w = (Inr a, w)"
  by (simp add: ex_return_def)

lemma ex_raise_apply [simp, exec_simps]: "ex_raise e w = (Inl (Raise e), w)"
  by (simp add: ex_raise_def)

lemma sbind_simps [simp]:
  "sbind (Inl e) f = Inl e"
  "sbind (Inr a) f = f a"
  by (simp_all add: sbind_def)

subsection \<open>Lists\<close>

text \<open>A loop over \<^verbatim>\<open>range(n)\<close> reading two lists at the same index is a map over their zip.\<close>

lemma map_upt_zip:
  "map (\<lambda>k. f (xs ! k) (ys ! k)) [0..<min (length xs) (length ys)] = map (\<lambda>(x, y). f x y) (zip xs ys)"
  by (rule nth_equalityI) auto

lemma map_nth_upt: "n \<le> length xs \<Longrightarrow> map (\<lambda>k. f (xs ! k)) [0..<n] = map f (take n xs)"
  by (rule nth_equalityI) auto

text \<open>The indices of a loop, cut at the index where it stops.\<close>

lemma upt_split_at: "k < n \<Longrightarrow> [0..<n] = [0..<k] @ k # [Suc k..<n]"
proof -
  assume k: "k < n"
  have "[0..<n] = [0..<k] @ [k..<n]"
    using upt_add_eq_append [of 0 k "n - k"] k by simp
  also have "\<dots> = [0..<k] @ k # [Suc k..<n]"
    using k by (simp add: upt_conv_Cons)
  finally show ?thesis .
qed

lemma sbind_eq_Inr [simp]:
  "(sbind r f = Inr b) \<longleftrightarrow> (\<exists>a. r = Inr a \<and> f a = Inr b)"
  by (cases r) auto

end
