(* ===== verification/Py_Strings.thy ===== *)
theory Py_Strings
  imports Py_Prelude
begin

text \<open>
  The Python string and list built-ins the script calls, written as executable HOL
  functions over \<open>string\<close> (a list of 8-bit characters, so text is taken to be ASCII):
  \<^verbatim>\<open>str.isspace\<close>, \<^verbatim>\<open>str.strip()\<close>, \<^verbatim>\<open>str.split()\<close>, \<^verbatim>\<open>str.split(".")\<close>,
  \<^verbatim>\<open>readlines()\<close>, the universal-newline translation of a file opened in text mode,
  and list indexing that raises \<^verbatim>\<open>IndexError\<close>.  The lemmas give the laws the
  component proofs need: tokens are non-empty and free of white space, a split skips
  leading white space, the fields of \<^verbatim>\<open>split(".")\<close> come from the string, and
  \<^verbatim>\<open>readlines\<close> loses no character.
\<close>

abbreviation LF :: char where "LF \<equiv> CHR 0x0A"
abbreviation CR :: char where "CR \<equiv> CHR 0x0D"
abbreviation TAB :: char where "TAB \<equiv> CHR 0x09"

subsection \<open>White space, strip and split\<close>

text \<open>
  \<^verbatim>\<open>str.isspace\<close> on the ASCII range: tab, line feed, vertical tab, form feed,
  carriage return, the four separators \<^verbatim>\<open>\x1c\<close> to \<^verbatim>\<open>\x1f\<close>, and space.
\<close>

definition py_isspace :: "char \<Rightarrow> bool" where
  "py_isspace c \<longleftrightarrow>
     c \<in> set [CHR 0x09, CHR 0x0A, CHR 0x0B, CHR 0x0C, CHR 0x0D, CHR 0x1C, CHR 0x1D, CHR 0x1E, CHR 0x1F, CHR 0x20]"

definition py_strip :: "string \<Rightarrow> string" where
  "py_strip s = rev (dropWhile py_isspace (rev (dropWhile py_isspace s)))"

text \<open>\<^verbatim>\<open>str.split()\<close> with no separator: the maximal runs of non-space characters.\<close>

function py_split_ws :: "string \<Rightarrow> string list" where
  "py_split_ws s =
     (let s' = dropWhile py_isspace s in
      if s' = [] then []
      else takeWhile (\<lambda>c. \<not> py_isspace c) s' # py_split_ws (dropWhile (\<lambda>c. \<not> py_isspace c) s'))"
  by pat_completeness auto

lemma length_dropWhile_nonspace:
  "dropWhile py_isspace s \<noteq> [] \<Longrightarrow>
   length (dropWhile (\<lambda>c. \<not> py_isspace c) (dropWhile py_isspace s)) < length s"
proof -
  assume ne: "dropWhile py_isspace s \<noteq> []"
  then obtain x xs where eq: "dropWhile py_isspace s = x # xs" by (cases "dropWhile py_isspace s") auto
  then have "\<not> py_isspace x" using hd_dropWhile [OF ne] by simp
  then have "length (dropWhile (\<lambda>c. \<not> py_isspace c) (x # xs)) \<le> length xs"
    by (simp add: length_dropWhile_le)
  moreover have "length (x # xs) \<le> length s" using eq by (metis length_dropWhile_le)
  ultimately show ?thesis using eq by simp
qed

termination py_split_ws
  by (relation "measure length") (auto simp: length_dropWhile_nonspace)

declare py_split_ws.simps [simp del]

text \<open>\<^verbatim>\<open>str.split(sep)\<close> with a one-character separator keeps empty fields.\<close>

fun py_split_sep :: "char \<Rightarrow> string \<Rightarrow> string list" where
  "py_split_sep c [] = [[]]"
| "py_split_sep c (x # xs) =
     (if x = c then [] # py_split_sep c xs
      else (case py_split_sep c xs of [] \<Rightarrow> [[x]] | w # ws \<Rightarrow> (x # w) # ws))"

subsection \<open>Reading a text file\<close>

text \<open>
  A file opened with \<^verbatim>\<open>open(p, "r")\<close> translates \<^verbatim>\<open>\r\n\<close> and a lone \<^verbatim>\<open>\r\<close>
  to \<^verbatim>\<open>\n\<close> (universal newlines, the default \<^verbatim>\<open>newline=None\<close>).
\<close>

fun univ_nl :: "string \<Rightarrow> string" where
  "univ_nl [] = []"
| "univ_nl [c] = [if c = CR then LF else c]"
| "univ_nl (c # d # cs) =
     (if c = CR \<and> d = LF then LF # univ_nl cs
      else (if c = CR then LF else c) # univ_nl (d # cs))"

text \<open>
  \<^verbatim>\<open>readlines()\<close>: the lines of the text, each keeping its terminating \<^verbatim>\<open>\n\<close>, the
  last one without it when the text does not end in a line feed.  The first argument
  is the line read so far.
\<close>

fun readlines_acc :: "string \<Rightarrow> string \<Rightarrow> string list" where
  "readlines_acc acc [] = (if acc = [] then [] else [acc])"
| "readlines_acc acc (c # cs) =
     (if c = LF then (acc @ [c]) # readlines_acc [] cs else readlines_acc (acc @ [c]) cs)"

definition py_readlines :: "string \<Rightarrow> string list" where
  "py_readlines s = readlines_acc [] s"

subsection \<open>List indexing\<close>

text \<open>\<^verbatim>\<open>xs[i]\<close> for a non-negative index: \<^verbatim>\<open>IndexError\<close> out of range.\<close>

definition py_index :: "'a list \<Rightarrow> nat \<Rightarrow> py_exc + 'a" where
  "py_index xs i = (if i < length xs then Inr (xs ! i) else Inl IndexError)"

subsection \<open>Laws of the built-ins\<close>

lemma py_index_Inr [simp]: "i < length xs \<Longrightarrow> py_index xs i = Inr (xs ! i)"
  by (simp add: py_index_def)

lemma py_index_Inl [simp]: "length xs \<le> i \<Longrightarrow> py_index xs i = Inl IndexError"
  by (simp add: py_index_def)

lemma py_index_take: "i < n \<Longrightarrow> py_index (take n xs) i = py_index xs i"
  by (simp add: py_index_def)

text \<open>Every token of \<^verbatim>\<open>split()\<close> is non-empty and holds no white space.\<close>

definition is_token :: "string \<Rightarrow> bool" where
  "is_token w \<longleftrightarrow> w \<noteq> [] \<and> (\<forall>c \<in> set w. \<not> py_isspace c)"

lemma py_split_ws_tokens: "\<forall>w \<in> set (py_split_ws s). is_token w"
proof (induction s rule: py_split_ws.induct)
  case (1 s)
  show ?case
  proof (cases "dropWhile py_isspace s = []")
    case True
    then show ?thesis by (subst py_split_ws.simps) simp
  next
    case False
    then have "\<not> py_isspace (hd (dropWhile py_isspace s))" by (rule hd_dropWhile)
    then have "takeWhile (\<lambda>c. \<not> py_isspace c) (dropWhile py_isspace s) \<noteq> []"
      using False by (cases "dropWhile py_isspace s") auto
    then have "is_token (takeWhile (\<lambda>c. \<not> py_isspace c) (dropWhile py_isspace s))"
      by (auto simp: is_token_def dest: set_takeWhileD)
    with "1.IH" False show ?thesis by (subst py_split_ws.simps) (simp add: Let_def)
  qed
qed

text \<open>A \<^verbatim>\<open>HOST:\<close>/\<^verbatim>\<open>DOMAIN:\<close> entry whose three fields are tokens.\<close>

definition token_entry :: "entry \<Rightarrow> bool" where
  "token_entry e \<longleftrightarrow> (case e of (n, t, v) \<Rightarrow> is_token n \<and> is_token t \<and> is_token v)"

lemma py_isspace_LF [simp]: "py_isspace LF"
  by (simp add: py_isspace_def)

lemma py_isspace_TAB_SP [simp]: "py_isspace TAB" "py_isspace (CHR '' '')"
  by (simp_all add: py_isspace_def)

lemma is_token_IN [simp]: "is_token ''IN''"
  by (simp add: is_token_def py_isspace_def)

lemma is_token_no_LF: "is_token w \<Longrightarrow> LF \<notin> set w"
  by (auto simp: is_token_def)

text \<open>
  The number of lines \<^verbatim>\<open>readlines\<close> returns: one per line feed, and one more for a
  last line that does not end in a line feed.
\<close>

lemma length_readlines_acc:
  "LF \<notin> set acc \<Longrightarrow>
   length (readlines_acc acc s) = count_list s LF + (if acc @ s \<noteq> [] \<and> last (acc @ s) \<noteq> LF then 1 else 0)"
  by (induction acc s rule: readlines_acc.induct) (auto dest: last_in_set)

lemma length_py_readlines:
  "length (py_readlines s) = count_list s LF + (if s \<noteq> [] \<and> last s \<noteq> LF then 1 else 0)"
  by (simp add: py_readlines_def length_readlines_acc)

text \<open>Splitting on a separator: a field free of it is one field, and the fields join back.\<close>

lemma py_split_sep_nonempty [simp]: "py_split_sep c s \<noteq> []"
  by (induction s) (auto split: list.splits)

lemma py_split_sep_no_sep: "c \<notin> set a \<Longrightarrow> py_split_sep c a = [a]"
  by (induction a) auto

lemma py_split_sep_append: "c \<notin> set a \<Longrightarrow> py_split_sep c (a @ c # s) = a # py_split_sep c s"
  by (induction a) auto

lemma py_split_sep_subset: "f \<in> set (py_split_sep c s) \<Longrightarrow> set f \<subseteq> set s"
proof (induction s arbitrary: f)
  case Nil
  then show ?case by simp
next
  case (Cons x xs)
  then show ?case by (cases "py_split_sep c xs") (auto split: if_splits, blast+)
qed

text \<open>Newline translation removes every carriage return and changes nothing else.\<close>

lemma CR_notin_univ_nl: "CR \<notin> set (univ_nl s)"
  by (induction s rule: univ_nl.induct) auto

lemma univ_nl_id: "CR \<notin> set s \<Longrightarrow> univ_nl s = s"
  by (induction s rule: univ_nl.induct) auto

lemma univ_nl_eq_iff: "univ_nl s = s \<longleftrightarrow> CR \<notin> set s"
  using CR_notin_univ_nl [of s] univ_nl_id [of s] by auto

lemma py_split_ws_dropWhile: "py_split_ws (dropWhile py_isspace s) = py_split_ws s"
  by (subst (1 2) py_split_ws.simps) simp

lemma py_split_ws_space_Cons: "py_isspace c \<Longrightarrow> py_split_ws (c # r) = py_split_ws r"
  by (metis dropWhile.simps(2) py_split_ws_dropWhile)

lemma py_split_ws_token_Cons:
  assumes "is_token a" "py_isspace c"
  shows "py_split_ws (a @ c # r) = a # py_split_ws r"
proof -
  have ne: "a \<noteq> []" and ns: "\<forall>x \<in> set a. \<not> py_isspace x" using assms(1) by (auto simp: is_token_def)
  then have d: "dropWhile py_isspace (a @ c # r) = a @ c # r"
    by (cases a) auto
  have "takeWhile (\<lambda>x. \<not> py_isspace x) (a @ c # r) = a"
    using ns assms(2) by (simp add: takeWhile_append2)
  moreover have "dropWhile (\<lambda>x. \<not> py_isspace x) (a @ c # r) = c # r"
    using ns assms(2) by (simp add: dropWhile_append2)
  ultimately show ?thesis
    using ne d assms(2) by (subst py_split_ws.simps) (simp add: py_split_ws_space_Cons)
qed

lemma py_split_ws_Nil: "py_split_ws [] = []"
  by (simp add: py_split_ws.simps)

end
