(* ===== verification/Py_IO.thy ===== *)
theory Py_IO
  imports Py_Strings
begin

text \<open>
  The input/output operations of the script, as computations of \<open>'a exec\<close> over the
  world: reading a whole text file with \<^verbatim>\<open>open(p, "r")\<close> and \<^verbatim>\<open>readlines()\<close>,
  truncating a file with \<^verbatim>\<open>open(p, "w")\<close>, appending with \<^verbatim>\<open>fd.write\<close> and
  \<^verbatim>\<open>fd.writelines\<close>, \<^verbatim>\<open>print\<close>, \<^verbatim>\<open>exit()\<close>, and the \<^verbatim>\<open>try ... except IndexError\<close>
  handler.  The lemmas compute each operation and state its frame: which files and
  which part of the output it leaves alone.  Writing is on a POSIX system, where text
  mode writes \<^verbatim>\<open>\n\<close> unchanged; opening a file for writing is taken to succeed.
\<close>

text \<open>The two ways the script changes the world: a file gets new contents, output grows.\<close>

definition put_file :: "string \<Rightarrow> string \<Rightarrow> world \<Rightarrow> world" where
  "put_file p s w = w\<lparr>files := (files w)(p \<mapsto> s)\<rparr>"

definition append_out :: "string \<Rightarrow> world \<Rightarrow> world" where
  "append_out s w = w\<lparr>stdout := stdout w @ s\<rparr>"

definition read_lines :: "string \<Rightarrow> string list exec" where
  "read_lines p w =
     (case files w p of
        None \<Rightarrow> (Inl (Raise (FileNotFoundError p)), w)
      | Some c \<Rightarrow> (Inr (py_readlines (univ_nl c)), w))"

definition open_write :: "string \<Rightarrow> unit exec" where
  "open_write p w = (Inr (), put_file p [] w)"

definition fd_write :: "string \<Rightarrow> string \<Rightarrow> unit exec" where
  "fd_write p s w = (Inr (), put_file p ((case files w p of None \<Rightarrow> [] | Some c \<Rightarrow> c) @ s) w)"

definition fd_writelines :: "string \<Rightarrow> string list \<Rightarrow> unit exec" where
  "fd_writelines p ls = fd_write p (concat ls)"

definition py_print :: "string \<Rightarrow> unit exec" where
  "py_print s w = (Inr (), append_out (s @ [LF]) w)"

definition py_exit :: "'a exec" where
  "py_exit w = (Inl SystemExit, w)"

text \<open>\<^verbatim>\<open>str(e)\<close> of an exception, as \<^verbatim>\<open>print(e)\<close> shows it.\<close>

fun exc_str :: "py_exc \<Rightarrow> string" where
  "exc_str (FileNotFoundError p) = ''[Errno 2] No such file or directory: '' @ [CHR 0x27] @ p @ [CHR 0x27]"
| "exc_str IndexError = ''list index out of range''"
| "exc_str (UnboundLocalError v) =
     ''cannot access local variable '' @ [CHR 0x27] @ v @ [CHR 0x27] @ '' where it is not associated with a value''"

text \<open>
  \<^verbatim>\<open>try: body except IndexError as e: handler(e)\<close>: an \<^verbatim>\<open>IndexError\<close> leaving the
  body is caught and the handler runs in the world the body left; everything else
  passes through.
\<close>

definition ex_try_index :: "'a exec \<Rightarrow> (py_exc \<Rightarrow> 'a exec) \<Rightarrow> 'a exec" where
  "ex_try_index m h w =
     (case m w of (Inl (Raise IndexError), w') \<Rightarrow> h IndexError w' | r \<Rightarrow> r)"

text \<open>A computation that, whatever happens, changes no file but \<open>p\<close>.\<close>

definition writes_only :: "string \<Rightarrow> 'a exec \<Rightarrow> bool" where
  "writes_only p m \<longleftrightarrow> (\<forall>w q. q \<noteq> p \<longrightarrow> files (snd (m w)) q = files w q)"

named_theorems frame_rules "compositional rules for writes_only"

subsection \<open>The world updates\<close>

lemma put_file_files [simp]: "files (put_file p s w) = (files w)(p \<mapsto> s)"
  by (simp add: put_file_def)

lemma put_file_stdout [simp]: "stdout (put_file p s w) = stdout w"
  by (simp add: put_file_def)

lemma append_out_files [simp]: "files (append_out s w) = files w"
  by (simp add: append_out_def)

lemma append_out_stdout [simp]: "stdout (append_out s w) = stdout w @ s"
  by (simp add: append_out_def)

lemma put_file_put_file [simp]: "put_file p a (put_file p b w) = put_file p a w"
  by (simp add: put_file_def)

lemma put_file_commute:
  "p \<noteq> q \<Longrightarrow> put_file p a (put_file q b w) = put_file q b (put_file p a w)"
  by (simp add: put_file_def fun_upd_twist)

lemma append_out_append_out [simp]: "append_out a (append_out b w) = append_out (b @ a) w"
  by (simp add: append_out_def)

lemma put_file_append_out [simp]: "put_file p s (append_out t w) = append_out t (put_file p s w)"
  by (simp add: put_file_def append_out_def)

lemma put_file_same: "files w p = Some s \<Longrightarrow> put_file p s w = w"
  by (simp add: put_file_def map_upd_triv)

subsection \<open>Computing the operations\<close>

lemma read_lines_Some [simp]:
  "files w p = Some c \<Longrightarrow> read_lines p w = (Inr (py_readlines (univ_nl c)), w)"
  by (simp add: read_lines_def)

lemma read_lines_None [simp]:
  "files w p = None \<Longrightarrow> read_lines p w = (Inl (Raise (FileNotFoundError p)), w)"
  by (simp add: read_lines_def)

lemma open_write_apply [simp]: "open_write p w = (Inr (), put_file p [] w)"
  by (simp add: open_write_def)

lemma fd_write_apply [simp]:
  "files w p = Some c \<Longrightarrow> fd_write p s w = (Inr (), put_file p (c @ s) w)"
  by (simp add: fd_write_def)

lemma py_print_apply [simp]: "py_print s w = (Inr (), append_out (s @ [LF]) w)"
  by (simp add: py_print_def)

lemma py_exit_apply [simp]: "py_exit w = (Inl SystemExit, w)"
  by (simp add: py_exit_def)

lemma ex_try_index_Inr [simp]: "m w = (Inr a, w') \<Longrightarrow> ex_try_index m h w = (Inr a, w')"
  by (simp add: ex_try_index_def)

lemma ex_try_index_IndexError [simp]:
  "m w = (Inl (Raise IndexError), w') \<Longrightarrow> ex_try_index m h w = h IndexError w'"
  by (simp add: ex_try_index_def)

text \<open>\<^verbatim>\<open>readlines\<close> loses no character: joining the lines gives the text back.\<close>

lemma concat_readlines_acc: "concat (readlines_acc acc s) = acc @ s"
  by (induction acc s rule: readlines_acc.induct) auto

lemma concat_py_readlines [simp]: "concat (py_readlines s) = s"
  by (simp add: py_readlines_def concat_readlines_acc)

subsection \<open>Frame rules\<close>

lemma writes_only_return [frame_rules]: "writes_only p (ex_return a)"
  by (simp add: writes_only_def)

lemma writes_only_lift [frame_rules]: "writes_only p (ex_lift r)"
  by (simp add: writes_only_def ex_lift_def split: sum.splits)

lemma writes_only_bind [frame_rules]:
  "writes_only p m \<Longrightarrow> (\<And>a. writes_only p (f a)) \<Longrightarrow> writes_only p (ex_bind m f)"
  unfolding writes_only_def ex_bind_def by (auto split: prod.splits sum.splits) (metis snd_conv)+

lemma writes_only_try [frame_rules]:
  "writes_only p m \<Longrightarrow> (\<And>e. writes_only p (h e)) \<Longrightarrow> writes_only p (ex_try_index m h)"
  unfolding writes_only_def ex_try_index_def
  by (auto split: prod.splits sum.splits abort.splits py_exc.splits) (metis snd_conv)+

lemma writes_only_fd_write [frame_rules]: "writes_only p (fd_write p s)"
  by (simp add: writes_only_def fd_write_def)

lemma writes_only_open_write [frame_rules]: "writes_only p (open_write p)"
  by (simp add: writes_only_def open_write_def)

lemma writes_only_fd_writelines [frame_rules]: "writes_only p (fd_writelines p ls)"
  by (simp add: fd_writelines_def writes_only_fd_write)

lemma writes_only_print [frame_rules]: "writes_only p (py_print s)"
  by (simp add: writes_only_def)

lemma writes_only_exit [frame_rules]: "writes_only p py_exit"
  by (simp add: writes_only_def)

lemma files_bind_frame:
  assumes "files (snd (m w)) q = files w q"
    and "\<And>a. fst (m w) = Inr a \<Longrightarrow> files (snd (f a (snd (m w)))) q = files (snd (m w)) q"
  shows "files (snd (ex_bind m f w)) q = files w q"
  using assms by (cases "m w") (auto simp: ex_bind_def split: sum.splits)

lemma writes_onlyD: "writes_only p m \<Longrightarrow> q \<noteq> p \<Longrightarrow> files (snd (m w)) q = files w q"
  by (simp add: writes_only_def)

end
