(* ===== verification/Header_Loader.thy ===== *)
theory Header_Loader
  imports Py_IO
begin

text \<open>
  The header loader, \<^verbatim>\<open>readHeader\<close> (\<^verbatim>\<open>src/dnsconfig.py\<close>, lines 1--10): the lines
  of \<^verbatim>\<open>./header.conf\<close>, each with its line feed, after universal-newline translation;
  \<^verbatim>\<open>FileNotFoundError\<close> when the file is missing.  It reads and never writes.
\<close>

definition header_path :: string where
  "header_path = ''./header.conf''"

definition read_header :: "string list exec" where
  "read_header = read_lines header_path"

lemma read_header_ok:
  "files w header_path = Some c \<Longrightarrow> read_header w = (Inr (py_readlines (univ_nl c)), w)"
  by (simp add: read_header_def)

text \<open>C18: the header is the text of \<^verbatim>\<open>header.conf\<close> cut into lines with nothing lost:
  joined again it is the file's text after newline translation, and the world is unchanged.\<close>

theorem read_header_content:
  assumes "files w header_path = Some c"
  shows "\<exists>header. read_header w = (Inr header, w) \<and> concat header = univ_nl c"
  using assms by (simp add: read_header_ok)

lemma read_header_content_witness:
  "files \<lparr>files = [header_path \<mapsto> ''; a'' @ [CR, LF] @ ''; b''], stdout = []\<rparr> header_path = Some (''; a'' @ [CR, LF] @ ''; b'') \<and>
   (\<exists>header. read_header \<lparr>files = [header_path \<mapsto> ''; a'' @ [CR, LF] @ ''; b''], stdout = []\<rparr> =
       (Inr header, \<lparr>files = [header_path \<mapsto> ''; a'' @ [CR, LF] @ ''; b''], stdout = []\<rparr>) \<and>
     concat header = ''; a'' @ [LF] @ ''; b'')"
  using read_header_content [where w = "\<lparr>files = [header_path \<mapsto> ''; a'' @ [CR, LF] @ ''; b''], stdout = []\<rparr>"
          and c = "''; a'' @ [CR, LF] @ ''; b''"]
  by simp

lemma read_header_world: "snd (read_header w) = w"
  by (simp add: read_header_def read_lines_def split: option.splits)

lemma read_header_missing:
  "files w header_path = None \<Longrightarrow> read_header w = (Inl (Raise (FileNotFoundError header_path)), w)"
  by (simp add: read_header_def)

end
