(* ===== verification/Config_Parser.thy ===== *)
theory Config_Parser
  imports Py_IO
begin

text \<open>
  The configuration parser, \<^verbatim>\<open>readConfig\<close> (\<^verbatim>\<open>src/dnsconfig.py\<close>, lines 40--67).
  It reads \<^verbatim>\<open>./host.conf\<close> line by line, splits each stripped line into white-space
  separated tokens and, for a non-empty token list, runs four independent tests on the
  first token: \<^verbatim>\<open>ZONE_FILE:\<close> and \<^verbatim>\<open>REVERSE_ZONE_FILE:\<close> assign the second token to
  a local variable, \<^verbatim>\<open>HOST:\<close> and \<^verbatim>\<open>DOMAIN:\<close> append the tuple of the second to
  fourth tokens to a list.  A keyword line with too few tokens raises \<^verbatim>\<open>IndexError\<close>;
  a path variable never assigned raises \<^verbatim>\<open>UnboundLocalError\<close> at the \<^verbatim>\<open>return\<close>.
  The loop's local state is the record \<open>cfg_state\<close>, an unassigned variable being
  \<open>None\<close>.  The abstract specification \<open>config_spec\<close> says what the loop computes
  when every line is well formed: the last value of each path keyword and, in input
  order, the entries of the \<^verbatim>\<open>HOST:\<close> and \<^verbatim>\<open>DOMAIN:\<close> lines.
\<close>

record cfg_state =
  cfg_zone :: "string option"
  cfg_reverse :: "string option"
  cfg_hosts :: "entry list"
  cfg_domains :: "entry list"

text \<open>What \<^verbatim>\<open>readConfig\<close> returns: \<^verbatim>\<open>zoneFile, reverseZoneFile, hosts, domains\<close>.\<close>

record config =
  zone_file :: string
  reverse_zone_file :: string
  conf_hosts :: "entry list"
  conf_domains :: "entry list"

definition host_conf :: string where
  "host_conf = ''./host.conf''"

definition cfg_init :: cfg_state where
  "cfg_init = \<lparr>cfg_zone = None, cfg_reverse = None, cfg_hosts = [], cfg_domains = []\<rparr>"

text \<open>\<^verbatim>\<open>line = line.strip().split()\<close>\<close>

definition line_tokens :: "string \<Rightarrow> string list" where
  "line_tokens l = py_split_ws (py_strip l)"

text \<open>\<^verbatim>\<open>(line[1], line[2], line[3])\<close>\<close>

definition parse_entry :: "string list \<Rightarrow> py_exc + entry" where
  "parse_entry line =
     sbind (py_index line 1) (\<lambda>a. sbind (py_index line 2) (\<lambda>b. sbind (py_index line 3) (\<lambda>c. Inr (a, b, c))))"

text \<open>The body of the loop for one token list: the four \<^verbatim>\<open>if\<close> statements in order.\<close>

definition config_line :: "cfg_state \<Rightarrow> string list \<Rightarrow> py_exc + cfg_state" where
  "config_line st line =
     (if line = [] then Inr st
      else
        sbind (if line ! 0 = ''ZONE_FILE:''
               then map_sum id (\<lambda>v. st\<lparr>cfg_zone := Some v\<rparr>) (py_index line 1) else Inr st) (\<lambda>st.
        sbind (if line ! 0 = ''REVERSE_ZONE_FILE:''
               then map_sum id (\<lambda>v. st\<lparr>cfg_reverse := Some v\<rparr>) (py_index line 1) else Inr st) (\<lambda>st.
        sbind (if line ! 0 = ''HOST:''
               then map_sum id (\<lambda>e. st\<lparr>cfg_hosts := cfg_hosts st @ [e]\<rparr>) (parse_entry line) else Inr st) (\<lambda>st.
        if line ! 0 = ''DOMAIN:''
        then map_sum id (\<lambda>e. st\<lparr>cfg_domains := cfg_domains st @ [e]\<rparr>) (parse_entry line) else Inr st))))"

text \<open>\<^verbatim>\<open>for line in fd.readlines(): ...\<close>\<close>

fun config_lines :: "cfg_state \<Rightarrow> string list \<Rightarrow> py_exc + cfg_state" where
  "config_lines st [] = Inr st"
| "config_lines st (l # ls) = sbind (config_line st (line_tokens l)) (\<lambda>st'. config_lines st' ls)"

text \<open>\<^verbatim>\<open>return zoneFile, reverseZoneFile, hosts, domains\<close>: the tuple is built left to right.\<close>

definition config_result :: "cfg_state \<Rightarrow> py_exc + config" where
  "config_result st =
     (case cfg_zone st of
        None \<Rightarrow> Inl (UnboundLocalError ''zoneFile'')
      | Some z \<Rightarrow>
          (case cfg_reverse st of
             None \<Rightarrow> Inl (UnboundLocalError ''reverseZoneFile'')
           | Some r \<Rightarrow> Inr \<lparr>zone_file = z, reverse_zone_file = r,
                           conf_hosts = cfg_hosts st, conf_domains = cfg_domains st\<rparr>))"

definition read_config :: "config exec" where
  "read_config =
     ex_bind (read_lines host_conf) (\<lambda>lines. ex_lift (sbind (config_lines cfg_init lines) config_result))"

subsection \<open>The abstract specification\<close>

definition is_kw :: "string \<Rightarrow> string list \<Rightarrow> bool" where
  "is_kw k t \<longleftrightarrow> t \<noteq> [] \<and> t ! 0 = k"

text \<open>A token list the loop body accepts: a keyword line has enough tokens.\<close>

definition line_ok :: "string list \<Rightarrow> bool" where
  "line_ok t \<longleftrightarrow>
     ((is_kw ''ZONE_FILE:'' t \<or> is_kw ''REVERSE_ZONE_FILE:'' t) \<longrightarrow> 2 \<le> length t) \<and>
     ((is_kw ''HOST:'' t \<or> is_kw ''DOMAIN:'' t) \<longrightarrow> 4 \<le> length t)"

definition entry_of :: "string list \<Rightarrow> entry" where
  "entry_of t = (t ! 1, t ! 2, t ! 3)"

text \<open>The value of the last line with keyword \<open>k\<close>, or \<open>d\<close> when there is none.\<close>

definition last_value :: "string \<Rightarrow> string list list \<Rightarrow> string option \<Rightarrow> string option" where
  "last_value k ts d = (case rev (filter (is_kw k) ts) of [] \<Rightarrow> d | t # _ \<Rightarrow> Some (t ! 1))"

definition config_spec :: "cfg_state \<Rightarrow> string list list \<Rightarrow> cfg_state" where
  "config_spec st ts =
     \<lparr>cfg_zone = last_value ''ZONE_FILE:'' ts (cfg_zone st),
      cfg_reverse = last_value ''REVERSE_ZONE_FILE:'' ts (cfg_reverse st),
      cfg_hosts = cfg_hosts st @ map entry_of (filter (is_kw ''HOST:'') ts),
      cfg_domains = cfg_domains st @ map entry_of (filter (is_kw ''DOMAIN:'') ts)\<rparr>"

text \<open>Well-formedness of the loop's locals: every value read from \<^verbatim>\<open>host.conf\<close> is a
  token, non-empty and free of white space.\<close>

definition cfg_wf :: "cfg_state \<Rightarrow> bool" where
  "cfg_wf st \<longleftrightarrow>
     pred_option is_token (cfg_zone st) \<and> pred_option is_token (cfg_reverse st) \<and>
     list_all token_entry (cfg_hosts st) \<and> list_all token_entry (cfg_domains st)"

subsection \<open>The loop refines the specification\<close>

lemma config_spec_Nil [simp]: "config_spec st [] = st"
  by (simp add: config_spec_def last_value_def)

lemma last_value_Cons: "last_value k ts (last_value k [t] d) = last_value k (t # ts) d"
  by (cases "rev (filter (is_kw k) ts)") (auto simp: last_value_def)

lemma config_spec_Cons: "config_spec (config_spec st [t]) ts = config_spec st (t # ts)"
  by (simp add: config_spec_def last_value_Cons)

lemma keywords_distinct [simp]:
  "''ZONE_FILE:'' \<noteq> ''REVERSE_ZONE_FILE:''" "''ZONE_FILE:'' \<noteq> ''HOST:''" "''ZONE_FILE:'' \<noteq> ''DOMAIN:''"
  "''REVERSE_ZONE_FILE:'' \<noteq> ''HOST:''" "''REVERSE_ZONE_FILE:'' \<noteq> ''DOMAIN:''" "''HOST:'' \<noteq> ''DOMAIN:''"
  by simp_all

lemma parse_entry_eq: "parse_entry t = (if 4 \<le> length t then Inr (entry_of t) else Inl IndexError)"
  by (simp add: parse_entry_def py_index_def entry_of_def)

lemmas config_step_simps = config_line_def line_ok_def is_kw_def config_spec_def last_value_def parse_entry_eq

text \<open>One pass of the loop body is one step of the specification, or \<^verbatim>\<open>IndexError\<close>.\<close>

lemma config_line_spec:
  "config_line st t = (if line_ok t then Inr (config_spec st [t]) else Inl IndexError)"
proof (cases "t = []")
  case True
  then show ?thesis by (simp add: config_step_simps)
next
  case False
  consider "t ! 0 = ''ZONE_FILE:''" | "t ! 0 = ''REVERSE_ZONE_FILE:''" | "t ! 0 = ''HOST:''"
    | "t ! 0 = ''DOMAIN:''"
    | "t ! 0 \<notin> {''ZONE_FILE:'', ''REVERSE_ZONE_FILE:'', ''HOST:'', ''DOMAIN:''}"
    by blast
  then show ?thesis
    by cases (use False in \<open>auto simp: config_step_simps py_index_def\<close>)
qed

lemma config_lines_spec:
  "config_lines st ls =
     (if \<forall>l \<in> set ls. line_ok (line_tokens l) then Inr (config_spec st (map line_tokens ls)) else Inl IndexError)"
  by (induction ls arbitrary: st) (auto simp: config_line_spec config_spec_Cons)

text \<open>A successful run of the loop tells that every line was accepted and what the
  specification gives; a run that leaves \<^verbatim>\<open>zoneFile\<close> unassigned saw no
  \<^verbatim>\<open>ZONE_FILE:\<close> line.\<close>

lemma config_lines_Inr:
  assumes "config_lines st ls = Inr st'"
  shows "(\<forall>l \<in> set ls. line_ok (line_tokens l)) \<and> st' = config_spec st (map line_tokens ls)"
  using assms by (simp add: config_lines_spec split: if_splits)

lemma config_spec_no_zone:
  "cfg_zone (config_spec cfg_init ts) = None \<Longrightarrow> \<forall>t \<in> set ts. \<not> is_kw ''ZONE_FILE:'' t"
  by (auto simp: config_spec_def last_value_def cfg_init_def filter_empty_conv split: list.splits)

lemma config_line_ignored:
  "t = [] \<or> t ! 0 \<notin> {''ZONE_FILE:'', ''REVERSE_ZONE_FILE:'', ''HOST:'', ''DOMAIN:''} \<Longrightarrow> config_line st t = Inr st"
  by (auto simp: config_line_def)

lemma config_lines_append: "config_lines st (xs @ ys) = sbind (config_lines st xs) (\<lambda>st'. config_lines st' ys)"
  by (induction xs arbitrary: st) (auto simp: sbind_def split: sum.splits)

lemma read_config_apply:
  "files w host_conf = Some c \<Longrightarrow>
   read_config w = (ex_lift (sbind (config_lines cfg_init (py_readlines (univ_nl c))) config_result)) w"
  by (simp add: read_config_def ex_bind_def)

lemma read_config_world: "snd (read_config w) = w"
  by (auto simp: read_config_def ex_bind_def read_lines_def ex_lift_def split: option.splits sum.splits)

text \<open>What a successful \<^verbatim>\<open>readConfig\<close> tells about \<^verbatim>\<open>host.conf\<close>.\<close>

lemma read_config_Inr:
  assumes "read_config w = (Inr cfg, w')"
  obtains c where "files w host_conf = Some c" "w' = w"
    "\<forall>l \<in> set (py_readlines (univ_nl c)). line_ok (line_tokens l)"
    "config_result (config_spec cfg_init (map line_tokens (py_readlines (univ_nl c)))) = Inr cfg"
proof -
  obtain c where c: "files w host_conf = Some c"
    using assms by (cases "files w host_conf") (auto simp: read_config_def ex_bind_def)
  let ?ls = "py_readlines (univ_nl c)"
  have ok: "\<forall>l \<in> set ?ls. line_ok (line_tokens l)"
    using assms c by (auto simp: read_config_apply config_lines_spec split: if_splits)
  then have "config_result (config_spec cfg_init (map line_tokens ?ls)) = Inr cfg" and "w' = w"
    using assms c by (auto simp: read_config_apply config_lines_spec ex_lift_def split: sum.splits)
  with c ok show ?thesis using that by blast
qed

subsection \<open>Properties of \<^verbatim>\<open>readConfig\<close>\<close>

text \<open>C5: \<^verbatim>\<open>readConfig\<close> implements its specification.  A missing \<^verbatim>\<open>host.conf\<close>
  raises \<^verbatim>\<open>FileNotFoundError\<close>; a keyword line with too few tokens raises
  \<^verbatim>\<open>IndexError\<close>; otherwise the result is the specification's state read off as the
  returned tuple: the last \<^verbatim>\<open>ZONE_FILE:\<close> and \<^verbatim>\<open>REVERSE_ZONE_FILE:\<close> values, and the
  \<^verbatim>\<open>HOST:\<close> and \<^verbatim>\<open>DOMAIN:\<close> entries in file order.  The world is never changed.\<close>

theorem read_config_spec:
  "read_config w =
    (case files w host_conf of
       None \<Rightarrow> (Inl (Raise (FileNotFoundError host_conf)), w)
     | Some c \<Rightarrow>
         (let ls = py_readlines (univ_nl c) in
          if \<forall>l \<in> set ls. line_ok (line_tokens l)
          then ex_lift (config_result (config_spec cfg_init (map line_tokens ls))) w
          else (Inl (Raise IndexError), w)))"
  by (cases "files w host_conf")
     (simp_all add: read_config_def ex_bind_def config_lines_spec Let_def)

text \<open>C9: when no line of \<^verbatim>\<open>host.conf\<close> sets \<^verbatim>\<open>ZONE_FILE:\<close>, \<^verbatim>\<open>readConfig\<close> raises
  \<^verbatim>\<open>UnboundLocalError\<close> for \<^verbatim>\<open>zoneFile\<close> instead of returning a default.\<close>

theorem read_config_unbound:
  assumes "files w host_conf = Some c"
    and "\<forall>l \<in> set (py_readlines (univ_nl c)). line_ok (line_tokens l)"
    and "\<forall>l \<in> set (py_readlines (univ_nl c)). \<not> is_kw ''ZONE_FILE:'' (line_tokens l)"
  shows "read_config w = (Inl (Raise (UnboundLocalError ''zoneFile'')), w)"
proof -
  have "filter (is_kw ''ZONE_FILE:'') (map line_tokens (py_readlines (univ_nl c))) = []"
    using assms(3) by (simp add: filter_empty_conv)
  with assms(1,2) show ?thesis
    by (simp add: read_config_apply config_lines_spec config_spec_def last_value_def
                  config_result_def cfg_init_def)
qed

text \<open>C15: a keyword line with too few tokens makes \<^verbatim>\<open>readConfig\<close> raise \<^verbatim>\<open>IndexError\<close>,
  which nothing catches.\<close>

theorem read_config_short_line:
  assumes "files w host_conf = Some c"
    and "l \<in> set (py_readlines (univ_nl c))" and "\<not> line_ok (line_tokens l)"
  shows "read_config w = (Inl (Raise IndexError), w)"
  using assms by (auto simp: read_config_apply config_lines_spec)

text \<open>C20: when \<^verbatim>\<open>ZONE_FILE:\<close> is given several times, the last occurrence wins.\<close>

theorem read_config_last_wins:
  assumes "read_config w = (Inr cfg, w')" "files w host_conf = Some c"
    and "filter (is_kw ''ZONE_FILE:'') (map line_tokens (py_readlines (univ_nl c))) = ts @ [t]"
  shows "zone_file cfg = t ! 1"
proof -
  obtain c' where "files w host_conf = Some c'"
    and res: "config_result (config_spec cfg_init (map line_tokens (py_readlines (univ_nl c')))) = Inr cfg"
    using assms(1) by (rule read_config_Inr)
  with assms(2,3) show ?thesis
    by (auto simp: config_result_def config_spec_def last_value_def split: option.splits)
qed

text \<open>C27: a blank line, or a line whose first token is none of the four keywords (a
  comment, say), is skipped: removing it from \<^verbatim>\<open>host.conf\<close> changes nothing.\<close>

theorem config_lines_skip:
  assumes "line_tokens l = [] \<or> line_tokens l ! 0 \<notin> {''ZONE_FILE:'', ''REVERSE_ZONE_FILE:'', ''HOST:'', ''DOMAIN:''}"
  shows "config_lines st (ls1 @ l # ls2) = config_lines st (ls1 @ ls2)"
  using config_line_ignored [OF assms] by (simp add: config_lines_append)

lemma config_lines_skip_witness:
  "line_tokens ''; a comment'' = ['';'', ''a'', ''comment''] \<and>
   config_lines cfg_init ([''ZONE_FILE: /tmp/z''] @ ''; a comment'' # [''HOST: h IN 10.0.0.1'']) =
   config_lines cfg_init ([''ZONE_FILE: /tmp/z''] @ [''HOST: h IN 10.0.0.1''])"
proof -
  have t: "line_tokens ''; a comment'' = ['';'', ''a'', ''comment'']" by code_simp
  have "line_tokens ''; a comment'' = [] \<or>
        line_tokens ''; a comment'' ! 0 \<notin> {''ZONE_FILE:'', ''REVERSE_ZONE_FILE:'', ''HOST:'', ''DOMAIN:''}"
    unfolding t by simp
  then show ?thesis using config_lines_skip t by blast
qed

subsection \<open>The loop keeps its locals well formed\<close>

lemma cfg_wf_init: "cfg_wf cfg_init"
  by (simp add: cfg_wf_def cfg_init_def)

lemma config_line_wf:
  assumes "cfg_wf st" "list_all is_token t" "config_line st t = Inr st'"
  shows "cfg_wf st'"
proof -
  have ok: "line_ok t" and st': "st' = config_spec st [t]"
    using assms(3) by (simp_all add: config_line_spec split: if_splits)
  have tok: "\<And>i. i < length t \<Longrightarrow> is_token (t ! i)"
    using assms(2) by (simp add: list_all_length)
  show ?thesis
    using assms(1) ok tok
    by (auto simp: st' cfg_wf_def config_spec_def last_value_def line_ok_def is_kw_def
                   entry_of_def token_entry_def)
qed

text \<open>C32: every pass of the \<^verbatim>\<open>readConfig\<close> loop keeps its locals well formed, so the
  paths and entries it returns are tokens.  In particular a path written with a blank in
  it is cut at the blank.\<close>

theorem config_lines_wf:
  assumes "cfg_wf st" "config_lines st ls = Inr st'"
  shows "cfg_wf st'"
  using assms
proof (induction ls arbitrary: st)
  case Nil
  then show ?case by simp
next
  case (Cons l ls)
  then obtain st1 where s1: "config_line st (line_tokens l) = Inr st1" and r: "config_lines st1 ls = Inr st'"
    by (cases "config_line st (line_tokens l)") auto
  have tok: "list_all is_token (line_tokens l)"
    using py_split_ws_tokens by (simp add: line_tokens_def list_all_iff)
  have "cfg_wf st1" using Cons.prems(1) tok s1 by (rule config_line_wf)
  then show ?case using r by (rule Cons.IH)
qed

lemma config_lines_wf_witness:
  "cfg_wf cfg_init \<and>
   config_lines cfg_init [''ZONE_FILE: /tmp/my zone''] =
     Inr \<lparr>cfg_zone = Some ''/tmp/my'', cfg_reverse = None, cfg_hosts = [], cfg_domains = []\<rparr> \<and>
   cfg_wf \<lparr>cfg_zone = Some ''/tmp/my'', cfg_reverse = None, cfg_hosts = [], cfg_domains = []\<rparr>"
proof -
  have p: "config_lines cfg_init [''ZONE_FILE: /tmp/my zone''] =
     Inr \<lparr>cfg_zone = Some ''/tmp/my'', cfg_reverse = None, cfg_hosts = [], cfg_domains = []\<rparr>"
    by code_simp
  show ?thesis using config_lines_wf [OF cfg_wf_init p] cfg_wf_init p by simp
qed

end
