(* ===== verification/Backup.thy ===== *)
theory Backup
  imports Py_IO
begin

text \<open>
  The backup writer, \<^verbatim>\<open>backup\<close> (\<^verbatim>\<open>src/dnsconfig.py\<close>, lines 13--37).  For each of
  the two zone file paths that is not \<^verbatim>\<open>None\<close> it reads the file with
  \<^verbatim>\<open>readlines()\<close> and writes the lines to a fixed backup path, \<^verbatim>\<open>./zoneFile.bak\<close>
  or \<^verbatim>\<open>./reverseFile.bak\<close>, overwriting what was there.  A path that does not exist
  raises \<^verbatim>\<open>FileNotFoundError\<close>.  Text mode translates \<^verbatim>\<open>\r\n\<close> and \<^verbatim>\<open>\r\<close> on the
  way in, so the copy equals the original exactly when the original holds no carriage
  return.
\<close>

definition zone_bak :: string where
  "zone_bak = ''./zoneFile.bak''"

definition reverse_bak :: string where
  "reverse_bak = ''./reverseFile.bak''"

text \<open>One guarded block of \<^verbatim>\<open>backup\<close>: read the source's lines, write them to the backup path.\<close>

definition backup_file :: "string option \<Rightarrow> string \<Rightarrow> unit exec" where
  "backup_file src dst =
     (case src of
        None \<Rightarrow> ex_return ()
      | Some p \<Rightarrow>
          ex_bind (read_lines p) (\<lambda>lines.
          ex_bind (open_write dst) (\<lambda>_.
          fd_writelines dst lines)))"

definition backup :: "string option \<Rightarrow> string option \<Rightarrow> unit exec" where
  "backup zoneFile reverseZoneFile =
     ex_bind (backup_file zoneFile zone_bak) (\<lambda>_. backup_file reverseZoneFile reverse_bak)"

lemma zone_bak_neq_reverse_bak [simp]: "zone_bak \<noteq> reverse_bak" "reverse_bak \<noteq> zone_bak"
  by (simp_all add: zone_bak_def reverse_bak_def)

lemma backup_file_Some:
  "files w p = Some c \<Longrightarrow> backup_file (Some p) dst w = (Inr (), put_file dst (univ_nl c) w)"
  by (simp add: backup_file_def ex_bind_def fd_writelines_def)

lemma backup_file_missing:
  "files w p = None \<Longrightarrow> backup_file (Some p) dst w = (Inl (Raise (FileNotFoundError p)), w)"
  by (simp add: backup_file_def ex_bind_def)

lemma backup_file_frame: "q \<noteq> dst \<Longrightarrow> files (snd (backup_file src dst w)) q = files w q"
  by (auto simp: backup_file_def ex_bind_def fd_writelines_def read_lines_def
           split: option.splits prod.splits sum.splits)

lemma backup_frame:
  "q \<noteq> zone_bak \<Longrightarrow> q \<noteq> reverse_bak \<Longrightarrow> files (snd (backup z r w)) q = files w q"
  unfolding backup_def by (intro files_bind_frame backup_file_frame)

lemma backup_ok:
  assumes "files w z = Some cz" "files w r = Some cr" "r \<noteq> zone_bak"
  shows "backup (Some z) (Some r) w =
    (Inr (), put_file reverse_bak (univ_nl cr) (put_file zone_bak (univ_nl cz) w))"
  using assms by (simp add: backup_def ex_bind_def backup_file_Some)

text \<open>The backup when the zone file exists: the reverse zone file is read after the
  zone backup is written, so it is looked up in that world.\<close>

lemma backup_after_zone:
  assumes "files w z = Some cz" "files (put_file zone_bak (univ_nl cz) w) r = Some cr"
  shows "backup (Some z) (Some r) w =
    (Inr (), put_file reverse_bak (univ_nl cr) (put_file zone_bak (univ_nl cz) w))"
  using assms by (simp add: backup_def ex_bind_def backup_file_Some)

lemma backup_reverse_missing:
  assumes "files w z = Some cz" "files (put_file zone_bak (univ_nl cz) w) r = None"
  shows "backup (Some z) (Some r) w = (Inl (Raise (FileNotFoundError r)), put_file zone_bak (univ_nl cz) w)"
  using assms by (simp add: backup_def ex_bind_def backup_file_Some backup_file_missing)

text \<open>C4: when both zone files exist (and the reverse path is not the zone backup path,
  which the first copy overwrites), \<^verbatim>\<open>backup\<close> returns normally and the two backup
  paths hold the newline-translated contents of the two zone files.\<close>

theorem backup_copies:
  assumes "files w z = Some cz" "files w r = Some cr" "r \<noteq> zone_bak"
  shows "backup (Some z) (Some r) w =
    (Inr (), put_file reverse_bak (univ_nl cr) (put_file zone_bak (univ_nl cz) w))"
  using assms by (rule backup_ok)

lemma backup_copies_witness:
  "files \<lparr>files = [''/tmp/z'' \<mapsto> ''z1'', ''/tmp/r'' \<mapsto> ''r1''], stdout = []\<rparr> ''/tmp/z'' = Some ''z1'' \<and> files \<lparr>files = [''/tmp/z'' \<mapsto> ''z1'', ''/tmp/r'' \<mapsto> ''r1''], stdout = []\<rparr> ''/tmp/r'' = Some ''r1'' \<and> ''/tmp/r'' \<noteq> zone_bak \<and>
   backup (Some ''/tmp/z'') (Some ''/tmp/r'') \<lparr>files = [''/tmp/z'' \<mapsto> ''z1'', ''/tmp/r'' \<mapsto> ''r1''], stdout = []\<rparr> =
     (Inr (), put_file reverse_bak ''r1'' (put_file zone_bak ''z1'' \<lparr>files = [''/tmp/z'' \<mapsto> ''z1'', ''/tmp/r'' \<mapsto> ''r1''], stdout = []\<rparr>))"
proof -
  have z: "''/tmp/r'' \<noteq> zone_bak" by (simp add: zone_bak_def)
  show ?thesis
    using backup_copies [where w = "\<lparr>files = [''/tmp/z'' \<mapsto> ''z1'', ''/tmp/r'' \<mapsto> ''r1''], stdout = []\<rparr>" and z = "''/tmp/z''" and r = "''/tmp/r''" and cz = "''z1''" and cr = "''r1''"] z
    by simp
qed

text \<open>C10: a path given as \<^verbatim>\<open>None\<close> is skipped: its block of \<^verbatim>\<open>backup\<close> reads,
  opens and raises nothing, so the whole call is exactly the other path's block alone,
  with the same result and the same world.\<close>

theorem backup_skip_none:
  "backup None r w = backup_file r reverse_bak w \<and> backup z None w = backup_file z zone_bak w"
  by (simp add: backup_def backup_file_def [of None])

text \<open>C14: a declared zone file that does not exist raises \<^verbatim>\<open>FileNotFoundError\<close> before
  anything is written: no backup file is created and the reverse file is not read.\<close>

theorem backup_missing:
  assumes "files w z = None"
  shows "backup (Some z) r w = (Inl (Raise (FileNotFoundError z)), w)"
  using assms by (simp add: backup_def ex_bind_def backup_file_missing)

lemma backup_missing_witness:
  "files \<lparr>files = Map.empty, stdout = []\<rparr> ''/tmp/z'' = None \<and>
   backup (Some ''/tmp/z'') (Some ''/tmp/r'') \<lparr>files = Map.empty, stdout = []\<rparr> = (Inl (Raise (FileNotFoundError ''/tmp/z'')), \<lparr>files = Map.empty, stdout = []\<rparr>)"
  using backup_missing [where w = "\<lparr>files = Map.empty, stdout = []\<rparr>" and z = "''/tmp/z''" and r = "Some ''/tmp/r''"] by simp

text \<open>C22: the backup is a byte-identical copy of the zone file exactly when the zone
  file holds no carriage return; a file with \<^verbatim>\<open>\r\n\<close> line ends is copied with
  \<^verbatim>\<open>\n\<close> line ends.\<close>

theorem backup_verbatim_iff:
  assumes "files w z = Some cz"
  shows "files (snd (backup (Some z) None w)) zone_bak = Some cz \<longleftrightarrow> CR \<notin> set cz"
  using assms by (simp add: backup_def ex_bind_def backup_file_Some backup_file_def [of None] univ_nl_eq_iff)

lemma backup_verbatim_iff_witness:
  "files \<lparr>files = [''/tmp/z'' \<mapsto> ''a'' @ [CR, LF]], stdout = []\<rparr> ''/tmp/z'' = Some (''a'' @ [CR, LF]) \<and>
   files (snd (backup (Some ''/tmp/z'') None \<lparr>files = [''/tmp/z'' \<mapsto> ''a'' @ [CR, LF]], stdout = []\<rparr>)) zone_bak \<noteq> Some (''a'' @ [CR, LF])"
  using backup_verbatim_iff [where w = "\<lparr>files = [''/tmp/z'' \<mapsto> ''a'' @ [CR, LF]], stdout = []\<rparr>" and z = "''/tmp/z''" and cz = "''a'' @ [CR, LF]"] by simp

end
