(* ===== verification/Zone_File.thy ===== *)
theory Zone_File
  imports Py_IO
begin

text \<open>
  The forward zone file generator, \<^verbatim>\<open>createZoneFile\<close> (\<^verbatim>\<open>src/dnsconfig.py\<close>, lines
  70--103).  It truncates the zone file, writes the header and a line feed, and then,
  for every index of the domain list, writes the domain record line and the host
  record line of the host at the same index.  An \<^verbatim>\<open>IndexError\<close> (a missing host) is
  caught: the exception and a hint are printed and \<^verbatim>\<open>exit()\<close> raises \<^verbatim>\<open>SystemExit\<close>.
  The lemmas give the file written when there are enough hosts, and the file and the
  output left behind when there are not.
\<close>

text \<open>\<^verbatim>\<open>f"{domains[x][0]}\t\tIN\t{domains[x][1]}\t{domains[x][2]}\n"\<close>\<close>

definition domain_line :: "entry \<Rightarrow> string" where
  "domain_line d = (case d of (n, t, v) \<Rightarrow> n @ [TAB, TAB] @ ''IN'' @ [TAB] @ t @ [TAB] @ v @ [LF])"

text \<open>\<^verbatim>\<open>f"{hosts[x][0]}  \tIN\t{hosts[x][1]}\t{hosts[x][2]}\n"\<close>\<close>

definition host_line :: "entry \<Rightarrow> string" where
  "host_line h = (case h of (n, t, v) \<Rightarrow> n @ ''  '' @ [TAB] @ ''IN'' @ [TAB] @ t @ [TAB] @ v @ [LF])"

definition zone_hint :: string where
  "zone_hint = ''[!] Make sure HOST and DOMAIN entries are 1:1 in the '' @ [CHR 0x27] @ ''host.conf'' @ [CHR 0x27]"

text \<open>
  The body of \<^verbatim>\<open>for x in range(len(domains))\<close>, run over the list of indices: the
  \<^verbatim>\<open>try\<close> block writes the two lines, the handler prints and exits.
\<close>

fun zone_loop :: "string \<Rightarrow> entry list \<Rightarrow> entry list \<Rightarrow> nat list \<Rightarrow> unit exec" where
  "zone_loop p hosts domains [] = ex_return ()"
| "zone_loop p hosts domains (x # xs) =
     ex_bind
       (ex_try_index
         (ex_bind (ex_lift (py_index domains x)) (\<lambda>d.
          ex_bind (fd_write p (domain_line d)) (\<lambda>_.
          ex_bind (ex_lift (py_index hosts x)) (\<lambda>h.
          fd_write p (host_line h)))))
         (\<lambda>e. ex_bind (py_print (exc_str e)) (\<lambda>_.
              ex_bind (py_print zone_hint) (\<lambda>_. py_exit))))
       (\<lambda>_. zone_loop p hosts domains xs)"

definition create_zone_file :: "string \<Rightarrow> string list \<Rightarrow> entry list \<Rightarrow> entry list \<Rightarrow> unit exec" where
  "create_zone_file zoneFile header hosts domains =
     ex_bind (open_write zoneFile) (\<lambda>_.
     ex_bind (fd_writelines zoneFile header) (\<lambda>_.
     ex_bind (fd_write zoneFile [LF]) (\<lambda>_.
     zone_loop zoneFile hosts domains [0..<length domains])))"

text \<open>
  The abstract content of the records: the domain and host lines of each pair of the
  zip of the two lists, in input order.
\<close>

definition zone_records :: "entry list \<Rightarrow> entry list \<Rightarrow> string" where
  "zone_records hosts domains = concat (map (\<lambda>(d, h). domain_line d @ host_line h) (zip domains hosts))"

subsection \<open>The loop\<close>

text \<open>One iteration: both lines written, or the domain line written and the handler run.\<close>

lemma zone_loop_step_ok:
  assumes "x < length domains" "x < length hosts" "files w p = Some c"
  shows "zone_loop p hosts domains (x # xs) w =
    zone_loop p hosts domains xs (put_file p (c @ domain_line (domains ! x) @ host_line (hosts ! x)) w)"
  using assms by (simp add: ex_bind_def ex_try_index_def)

lemma zone_loop_step_mismatch:
  assumes "x < length domains" "length hosts \<le> x" "files w p = Some c"
  shows "zone_loop p hosts domains (x # xs) w =
    (Inl SystemExit, append_out (exc_str IndexError @ [LF] @ zone_hint @ [LF])
                       (put_file p (c @ domain_line (domains ! x)) w))"
  using assms by (simp add: ex_bind_def ex_try_index_def del: exc_str.simps)

abbreviation zone_pairs :: "entry list \<Rightarrow> entry list \<Rightarrow> nat list \<Rightarrow> string" where
  "zone_pairs hosts domains xs \<equiv> concat (map (\<lambda>k. domain_line (domains ! k) @ host_line (hosts ! k)) xs)"

lemma zone_loop_ok:
  assumes "\<forall>x \<in> set xs. x < length domains \<and> x < length hosts"
    and "files w p = Some c"
  shows "zone_loop p hosts domains xs w =
    (Inr (), put_file p (c @ zone_pairs hosts domains xs) w)"
  using assms
proof (induction xs arbitrary: w c)
  case Nil
  then show ?case by (simp add: put_file_same)
next
  case (Cons x xs)
  then show ?case by (simp add: zone_loop_step_ok del: zone_loop.simps)
qed

lemma zone_loop_mismatch:
  assumes "\<forall>x \<in> set ys. x < length domains \<and> x < length hosts"
    and "k < length domains" and "length hosts \<le> k"
    and "files w p = Some c"
  shows "zone_loop p hosts domains (ys @ k # zs) w =
    (Inl SystemExit, append_out (exc_str IndexError @ [LF] @ zone_hint @ [LF])
                       (put_file p (c @ zone_pairs hosts domains ys @ domain_line (domains ! k)) w))"
  using assms
proof (induction ys arbitrary: w c)
  case Nil
  then show ?case by (simp add: zone_loop_step_mismatch del: exc_str.simps zone_loop.simps)
next
  case (Cons y ys)
  then show ?case by (simp add: zone_loop_step_ok del: exc_str.simps zone_loop.simps)
qed

subsection \<open>The generator\<close>

lemma create_zone_file_prefix:
  "create_zone_file p header hosts domains w =
   zone_loop p hosts domains [0..<length domains] (put_file p (concat header @ [LF]) w)"
  by (simp add: create_zone_file_def fd_writelines_def ex_bind_def)

lemma zone_pairs_upt:
  "zone_pairs hosts domains [0..<min (length domains) (length hosts)] = zone_records hosts domains"
  by (simp add: zone_records_def map_upt_zip [where f = "\<lambda>d h. domain_line d @ host_line h"])

lemma create_zone_file_ok:
  assumes "length domains \<le> length hosts"
  shows "create_zone_file p header hosts domains w =
    (Inr (), put_file p (concat header @ [LF] @ zone_records hosts domains) w)"
proof -
  have "zone_pairs hosts domains [0..<length domains] = zone_records hosts domains"
    using assms zone_pairs_upt [of domains hosts] by (simp add: min_absorb1)
  with assms show ?thesis
    by (simp add: create_zone_file_prefix zone_loop_ok)
qed

text \<open>C1: with at least as many hosts as domains the generator returns normally, and the
  zone file holds the header, one line feed, and a domain line followed by a host line for
  each pair of the zip, in input order.  Nothing else of the world changes.\<close>

theorem create_zone_file_content:
  assumes "length domains \<le> length hosts"
  shows "create_zone_file p header hosts domains w =
    (Inr (), put_file p (concat header @ [LF] @ zone_records hosts domains) w)"
  using assms by (rule create_zone_file_ok)

lemma create_zone_file_content_witness:
  "length [(''example.com.'', ''IN'', ''NS'')] \<le> length [(''ns.example.com.'', ''IN'', ''192.168.1.1'')] \<and>
   create_zone_file ''/tmp/z'' [''; header'' @ [LF]] [(''ns.example.com.'', ''IN'', ''192.168.1.1'')] [(''example.com.'', ''IN'', ''NS'')] \<lparr>files = Map.empty, stdout = []\<rparr> =
   (Inr (), put_file ''/tmp/z'' (''; header'' @ [LF, LF] @ ''example.com.'' @ [TAB, TAB] @ ''IN'' @ [TAB] @ ''IN'' @ [TAB] @ ''NS'' @ [LF] @ ''ns.example.com.  '' @ [TAB] @ ''IN'' @ [TAB] @ ''IN'' @ [TAB] @ ''192.168.1.1'' @ [LF]) \<lparr>files = Map.empty, stdout = []\<rparr>)"
  using create_zone_file_content [where domains = "[(''example.com.'', ''IN'', ''NS'')]" and hosts = "[(''ns.example.com.'', ''IN'', ''192.168.1.1'')]" and p = "''/tmp/z''"
          and header = "[''; header'' @ [LF]]" and w = "\<lparr>files = Map.empty, stdout = []\<rparr>"]
  by (simp add: zone_records_def domain_line_def host_line_def)

lemma create_zone_file_mismatch_eq:
  assumes "length hosts < length domains"
  shows "create_zone_file p header hosts domains w =
    (Inl SystemExit,
     append_out (exc_str IndexError @ [LF] @ zone_hint @ [LF])
       (put_file p (concat header @ [LF] @ zone_records hosts domains @ domain_line (domains ! length hosts)) w))"
proof -
  let ?n = "length hosts"
  have "[0..<length domains] = [0..<?n] @ ?n # [Suc ?n..<length domains]"
    using assms by (rule upt_split_at)
  moreover have "zone_pairs hosts domains [0..<?n] = zone_records hosts domains"
    using assms zone_pairs_upt [of domains hosts] by (simp add: min_absorb2)
  ultimately show ?thesis
    using assms by (simp add: create_zone_file_prefix zone_loop_mismatch del: exc_str.simps)
qed

text \<open>C3: with fewer hosts than domains the generator writes the matched pairs and then the
  domain line of the first unmatched index before the missing host raises
  \<^verbatim>\<open>IndexError\<close>; the handler prints the exception and the hint, and \<^verbatim>\<open>exit()\<close>
  raises \<^verbatim>\<open>SystemExit\<close>.\<close>

theorem create_zone_file_mismatch:
  assumes "length hosts < length domains"
  shows "create_zone_file p header hosts domains w =
    (Inl SystemExit,
     append_out (exc_str IndexError @ [LF] @ zone_hint @ [LF])
       (put_file p (concat header @ [LF] @ zone_records hosts domains @ domain_line (domains ! length hosts)) w))"
  using assms by (rule create_zone_file_mismatch_eq)

lemma create_zone_file_mismatch_witness:
  "length [(''ns.example.com.'', ''IN'', ''192.168.1.1'')] < length [(''example.com.'', ''IN'', ''NS''), (''example.com.'', ''IN'', ''NS'')] \<and>
   create_zone_file ''/tmp/z'' [] [(''ns.example.com.'', ''IN'', ''192.168.1.1'')] [(''example.com.'', ''IN'', ''NS''), (''example.com.'', ''IN'', ''NS'')] \<lparr>files = Map.empty, stdout = []\<rparr> =
   (Inl SystemExit, append_out (''list index out of range'' @ [LF] @ zone_hint @ [LF])
      (put_file ''/tmp/z'' ([LF] @ ''example.com.'' @ [TAB, TAB] @ ''IN'' @ [TAB] @ ''IN'' @ [TAB] @ ''NS'' @ [LF] @ ''ns.example.com.  '' @ [TAB] @ ''IN'' @ [TAB] @ ''IN'' @ [TAB] @ ''192.168.1.1'' @ [LF] @ ''example.com.'' @ [TAB, TAB] @ ''IN'' @ [TAB] @ ''IN'' @ [TAB] @ ''NS'' @ [LF]) \<lparr>files = Map.empty, stdout = []\<rparr>))"
  using create_zone_file_mismatch [where domains = "[(''example.com.'', ''IN'', ''NS''), (''example.com.'', ''IN'', ''NS'')]" and hosts = "[(''ns.example.com.'', ''IN'', ''192.168.1.1'')]" and p = "''/tmp/z''"
          and header = "[]" and w = "\<lparr>files = Map.empty, stdout = []\<rparr>"]
  by (simp add: zone_records_def domain_line_def host_line_def)

subsection \<open>Lines of the zone file\<close>

lemma zone_records_Nil [simp]:
  "zone_records hosts [] = []" "zone_records [] domains = []"
  by (simp_all add: zone_records_def)

lemma zone_records_Cons [simp]:
  "zone_records (h # hs) (d # ds) = domain_line d @ host_line h @ zone_records hs ds"
  by (simp add: zone_records_def)

lemma record_lines_count:
  "token_entry e \<Longrightarrow> count_list (domain_line e) LF = 1 \<and> count_list (host_line e) LF = 1"
  by (cases e) (auto simp: domain_line_def host_line_def token_entry_def dest!: is_token_no_LF)

lemma host_line_last: "host_line h \<noteq> [] \<and> last (host_line h) = LF"
  by (cases h) (simp add: host_line_def)

lemma zone_records_count:
  "\<forall>e \<in> set hosts \<union> set domains. token_entry e \<Longrightarrow>
   count_list (zone_records hosts domains) LF = 2 * min (length domains) (length hosts)"
proof (induction domains arbitrary: hosts)
  case Nil
  then show ?case by simp
next
  case (Cons d ds)
  then show ?case by (cases hosts) (auto simp: record_lines_count)
qed

lemma zone_records_last: "zone_records hosts domains = [] \<or> last (zone_records hosts domains) = LF"
proof (induction domains arbitrary: hosts)
  case Nil
  then show ?case by simp
next
  case (Cons d ds)
  then show ?case by (cases hosts) (auto simp: host_line_last last_append)
qed

text \<open>The lines \<^verbatim>\<open>readlines\<close> finds in the zone file: those of the header text, one
  more when that text ends without a line feed, and two per record pair.\<close>

lemma zone_text_lines:
  assumes "\<forall>e \<in> set hosts \<union> set domains. token_entry e"
  shows "length (py_readlines (htext @ LF # zone_records hosts domains)) =
         count_list htext LF + 1 + 2 * min (length domains) (length hosts)"
proof -
  have "last (htext @ LF # zone_records hosts domains) = LF"
    using zone_records_last [of hosts domains] by auto
  then show ?thesis
    using assms by (simp add: length_py_readlines zone_records_count)
qed

text \<open>C7: when the header text is empty or ends in a line feed and the entries are made
  of tokens, the zone file written for equal-length lists of \<open>N\<close> entries has
  \<open>2 * N + H + 1\<close> lines, \<open>H\<close> the number of header lines.\<close>

theorem zone_file_line_count:
  assumes "length domains = length hosts" "\<forall>e \<in> set hosts \<union> set domains. token_entry e"
    and "header = py_readlines htext" "htext = [] \<or> last htext = LF"
  shows "\<exists>w'. create_zone_file p header hosts domains w = (Inr (), w') \<and>
     map_option (\<lambda>c. length (py_readlines c)) (files w' p) = Some (2 * length domains + length header + 1)"
proof -
  have "length header = count_list htext LF"
    using assms(3,4) by (auto simp: length_py_readlines)
  then show ?thesis
    using assms by (simp add: create_zone_file_ok zone_text_lines)
qed

lemma zone_file_line_count_witness:
  "length [(''example.com.'', ''IN'', ''NS'')] = length [(''ns.example.com.'', ''IN'', ''192.168.1.1'')] \<and> token_entry (''ns.example.com.'', ''IN'', ''192.168.1.1'') \<and> token_entry (''example.com.'', ''IN'', ''NS'') \<and>
   [''; header'' @ [LF]] = py_readlines (''; header'' @ [LF]) \<and>
   last (''; header'' @ [LF]) = LF \<and>
   (\<exists>w'. create_zone_file ''/tmp/z'' [''; header'' @ [LF]] [(''ns.example.com.'', ''IN'', ''192.168.1.1'')] [(''example.com.'', ''IN'', ''NS'')] \<lparr>files = Map.empty, stdout = []\<rparr> = (Inr (), w') \<and>
     map_option (\<lambda>c. length (py_readlines c)) (files w' ''/tmp/z'') = Some 4)"
  using zone_file_line_count [where domains = "[(''example.com.'', ''IN'', ''NS'')]" and hosts = "[(''ns.example.com.'', ''IN'', ''192.168.1.1'')]" and p = "''/tmp/z''"
          and header = "[''; header'' @ [LF]]" and htext = "''; header'' @ [LF]" and w = "\<lparr>files = Map.empty, stdout = []\<rparr>"]
  by (simp add: token_entry_def is_token_def py_isspace_def py_readlines_def)

text \<open>C8: when the header text does not end in a line feed, the line feed written after
  the header only ends its last line, so no blank line separates header and records: the
  file has \<open>2 * N + H\<close> lines, one fewer than the specification's count.\<close>

theorem zone_file_header_unterminated:
  assumes "length domains = length hosts" "\<forall>e \<in> set hosts \<union> set domains. token_entry e"
    and "header = py_readlines htext" "htext \<noteq> []" "last htext \<noteq> LF"
  shows "\<exists>w'. create_zone_file p header hosts domains w = (Inr (), w') \<and>
     map_option (\<lambda>c. length (py_readlines c)) (files w' p) = Some (2 * length domains + length header)"
proof -
  have "length header = count_list htext LF + 1"
    using assms(3-5) by (simp add: length_py_readlines)
  then show ?thesis
    using assms by (simp add: create_zone_file_ok zone_text_lines)
qed

lemma zone_file_header_unterminated_witness:
  "length [(''example.com.'', ''IN'', ''NS'')] = length [(''ns.example.com.'', ''IN'', ''192.168.1.1'')] \<and> token_entry (''ns.example.com.'', ''IN'', ''192.168.1.1'') \<and> token_entry (''example.com.'', ''IN'', ''NS'') \<and>
   [''; header''] = py_readlines ''; header'' \<and> ''; header'' \<noteq> [] \<and> last ''; header'' \<noteq> LF \<and>
   (\<exists>w'. create_zone_file ''/tmp/z'' [''; header''] [(''ns.example.com.'', ''IN'', ''192.168.1.1'')] [(''example.com.'', ''IN'', ''NS'')] \<lparr>files = Map.empty, stdout = []\<rparr> = (Inr (), w') \<and>
     map_option (\<lambda>c. length (py_readlines c)) (files w' ''/tmp/z'') = Some 3)"
  using zone_file_header_unterminated [where domains = "[(''example.com.'', ''IN'', ''NS'')]" and hosts = "[(''ns.example.com.'', ''IN'', ''192.168.1.1'')]" and p = "''/tmp/z''"
          and header = "[''; header'']" and htext = "''; header''" and w = "\<lparr>files = Map.empty, stdout = []\<rparr>"]
  by (simp add: token_entry_def is_token_def py_isspace_def py_readlines_def)

subsection \<open>The generator writes only the zone file\<close>

lemma zone_loop_writes_only: "writes_only p (zone_loop p hosts domains xs)"
  by (induction xs) (simp only: zone_loop.simps; intro frame_rules; assumption)+

lemma create_zone_file_writes_only: "writes_only p (create_zone_file p header hosts domains)"
  unfolding create_zone_file_def by (intro frame_rules zone_loop_writes_only)

subsection \<open>Hosts beyond the number of domains play no part\<close>

lemma zone_loop_take:
  "\<forall>x \<in> set xs. x < n \<Longrightarrow> zone_loop p (take n hosts) domains xs = zone_loop p hosts domains xs"
  by (induction xs) (simp_all add: py_index_take)

text \<open>C28: the forward zone file depends on the hosts only through the first
  \<^verbatim>\<open>len(domains)\<close> of them: the generator given the hosts cut to that length behaves
  exactly as on all of them, on every input and every path.\<close>

theorem create_zone_file_surplus_hosts:
  "create_zone_file p header (take (length domains) hosts) domains = create_zone_file p header hosts domains"
  by (simp add: create_zone_file_def zone_loop_take)

subsection \<open>Zone lines split back into their fields\<close>

text \<open>C16: a zone line, split on white space as \<^verbatim>\<open>readConfig\<close> splits a line, gives the
  entry's three tokens around the class \<^verbatim>\<open>IN\<close>: the output stays parseable into the
  fields it was made from.\<close>

theorem zone_lines_resplit:
  assumes "token_entry (n, t, v)"
  shows "py_split_ws (domain_line (n, t, v)) = [n, ''IN'', t, v] \<and>
         py_split_ws (host_line (n, t, v)) = [n, ''IN'', t, v]"
proof -
  have tok: "is_token n" "is_token t" "is_token v"
    using assms by (simp_all add: token_entry_def)
  have d: "domain_line (n, t, v) = n @ TAB # (TAB # (''IN'' @ TAB # (t @ TAB # (v @ LF # []))))"
    by (simp add: domain_line_def)
  have h: "host_line (n, t, v) =
           n @ CHR '' '' # (CHR '' '' # (TAB # (''IN'' @ TAB # (t @ TAB # (v @ LF # [])))))"
    by (simp add: host_line_def)
  show ?thesis
    by (simp only: d h tok py_split_ws_token_Cons py_split_ws_space_Cons py_isspace_TAB_SP
                   py_isspace_LF is_token_IN py_split_ws_Nil)
qed

lemma zone_lines_resplit_witness:
  "token_entry (''ns.example.com.'', ''IN'', ''192.168.1.1'') \<and>
   py_split_ws (domain_line (''ns.example.com.'', ''IN'', ''192.168.1.1'')) = [''ns.example.com.'', ''IN'', ''IN'', ''192.168.1.1''] \<and>
   py_split_ws (host_line (''ns.example.com.'', ''IN'', ''192.168.1.1'')) = [''ns.example.com.'', ''IN'', ''IN'', ''192.168.1.1'']"
  using zone_lines_resplit [of "''ns.example.com.''" "''IN''" "''192.168.1.1''"]
  by (simp add: token_entry_def is_token_def py_isspace_def)

end
