(* ===== verification/Reverse_Zone.thy ===== *)
theory Reverse_Zone
  imports Py_IO
begin

text \<open>
  The reverse zone file generator, \<^verbatim>\<open>createReverseZoneFile\<close> (\<^verbatim>\<open>src/dnsconfig.py\<close>,
  lines 106--136).  It truncates the reverse zone file, writes the header and a line
  feed, and for every host splits the value field on \<^verbatim>\<open>"."\<close>, builds the name
  \<^verbatim>\<open>ip[2].ip[1].ip[0].in-addr.arpa.\<close> and writes an \<^verbatim>\<open>NS\<close> line binding it to the
  host's name.  A value with fewer than three fields raises \<^verbatim>\<open>IndexError\<close>, which is
  caught: the exception and a message are printed and \<^verbatim>\<open>exit()\<close> raises
  \<^verbatim>\<open>SystemExit\<close>.  The domain list is accepted and never read.
\<close>

text \<open>\<^verbatim>\<open>ip = hosts[x][2].split("."); arpa = ip[2] + "." + ip[1] + "." + ip[0] + ".in-addr.arpa."\<close>\<close>

definition reverse_arpa :: "string \<Rightarrow> py_exc + string" where
  "reverse_arpa v =
     (let ip = py_split_sep (CHR ''.'') v in
      sbind (py_index ip 2) (\<lambda>o2. sbind (py_index ip 1) (\<lambda>o1. sbind (py_index ip 0) (\<lambda>o0.
        Inr (o2 @ ''.'' @ o1 @ ''.'' @ o0 @ ''.in-addr.arpa.'')))))"

text \<open>\<^verbatim>\<open>f"{arpa} \tIN \tNS \t{hosts[x][0]}\n"\<close>\<close>

definition reverse_line :: "string \<Rightarrow> string \<Rightarrow> string" where
  "reverse_line arpa name = arpa @ '' '' @ [TAB] @ ''IN '' @ [TAB] @ ''NS '' @ [TAB] @ name @ [LF]"

text \<open>The message of the handler; the backslash continuation keeps the next line's indentation.\<close>

definition reverse_hint :: string where
  "reverse_hint = ''[!] If this error occurs please look at the '' @ replicate 20 (CHR '' '') @
     [CHR 0x27] @ ''createReverseZoneFile()'' @ [CHR 0x27] @ '' function because this should never happen''"

fun reverse_loop :: "string \<Rightarrow> entry list \<Rightarrow> nat list \<Rightarrow> unit exec" where
  "reverse_loop p hosts [] = ex_return ()"
| "reverse_loop p hosts (x # xs) =
     ex_bind
       (ex_try_index
         (ex_bind (ex_lift (py_index hosts x)) (\<lambda>h.
          ex_bind (ex_lift (reverse_arpa (snd (snd h)))) (\<lambda>arpa.
          ex_bind (ex_lift (py_index hosts x)) (\<lambda>h'.
          fd_write p (reverse_line arpa (fst h'))))))
         (\<lambda>e. ex_bind (py_print (exc_str e)) (\<lambda>_.
              ex_bind (py_print reverse_hint) (\<lambda>_. py_exit))))
       (\<lambda>_. reverse_loop p hosts xs)"

definition create_reverse_zone_file :: "string \<Rightarrow> string list \<Rightarrow> entry list \<Rightarrow> entry list \<Rightarrow> unit exec" where
  "create_reverse_zone_file reverseZoneFile header hosts domains =
     ex_bind (open_write reverseZoneFile) (\<lambda>_.
     ex_bind (fd_writelines reverseZoneFile header) (\<lambda>_.
     ex_bind (fd_write reverseZoneFile [LF]) (\<lambda>_.
     reverse_loop reverseZoneFile hosts [0..<length hosts])))"

text \<open>The reverse name of a list of octets with at least three fields, and the records.\<close>

definition arpa_of :: "string list \<Rightarrow> string" where
  "arpa_of ip = ip ! 2 @ ''.'' @ ip ! 1 @ ''.'' @ ip ! 0 @ ''.in-addr.arpa.''"

definition octets_ok :: "entry \<Rightarrow> bool" where
  "octets_ok h \<longleftrightarrow> 3 \<le> length (py_split_sep (CHR ''.'') (snd (snd h)))"

definition reverse_rec :: "entry \<Rightarrow> string" where
  "reverse_rec h = reverse_line (arpa_of (py_split_sep (CHR ''.'') (snd (snd h)))) (fst h)"

definition reverse_records :: "entry list \<Rightarrow> string" where
  "reverse_records hosts = concat (map reverse_rec hosts)"

subsection \<open>The reverse name\<close>

lemma reverse_arpa_ok: "octets_ok h \<Longrightarrow> reverse_arpa (snd (snd h)) = Inr (arpa_of (py_split_sep (CHR ''.'') (snd (snd h))))"
  by (simp add: octets_ok_def reverse_arpa_def arpa_of_def Let_def)

lemma reverse_arpa_bad: "\<not> octets_ok h \<Longrightarrow> reverse_arpa (snd (snd h)) = Inl IndexError"
  by (simp add: octets_ok_def reverse_arpa_def Let_def)

text \<open>C2: for a dotted value \<open>a.b.c.d\<close> whose four parts hold no dot, the reverse name
  is \<open>c.b.a.in-addr.arpa.\<close>: the first octet is dropped, the other three reversed.\<close>

theorem reverse_arpa_dotted:
  assumes "CHR ''.'' \<notin> set a" "CHR ''.'' \<notin> set b" "CHR ''.'' \<notin> set c" "CHR ''.'' \<notin> set d"
  shows "reverse_arpa (a @ ''.'' @ b @ ''.'' @ c @ ''.'' @ d) = Inr (c @ ''.'' @ b @ ''.'' @ a @ ''.in-addr.arpa.'')"
proof -
  have "py_split_sep (CHR ''.'') (a @ ''.'' @ b @ ''.'' @ c @ ''.'' @ d) = [a, b, c, d]"
    using assms by (simp add: py_split_sep_append py_split_sep_no_sep)
  then show ?thesis by (simp add: reverse_arpa_def)
qed

lemma reverse_arpa_dotted_witness:
  "CHR ''.'' \<notin> set ''192'' \<and> CHR ''.'' \<notin> set ''168'' \<and> CHR ''.'' \<notin> set ''1'' \<and> CHR ''.'' \<notin> set ''7'' \<and>
   reverse_arpa ''192.168.1.7'' = Inr ''1.168.192.in-addr.arpa.''"
  using reverse_arpa_dotted [of "''192''" "''168''" "''1''" "''7''"] by simp

subsection \<open>The loop\<close>

lemma reverse_loop_step_ok:
  assumes "x < length hosts" "octets_ok (hosts ! x)" "files w p = Some c"
  shows "reverse_loop p hosts (x # xs) w = reverse_loop p hosts xs (put_file p (c @ reverse_rec (hosts ! x)) w)"
  using assms by (simp add: ex_bind_def ex_try_index_def reverse_arpa_ok reverse_rec_def)

lemma reverse_loop_step_bad:
  assumes "x < length hosts" "\<not> octets_ok (hosts ! x)"
  shows "reverse_loop p hosts (x # xs) w =
    (Inl SystemExit, append_out (exc_str IndexError @ [LF] @ reverse_hint @ [LF]) w)"
  using assms by (simp add: ex_bind_def ex_try_index_def reverse_arpa_bad del: exc_str.simps)

lemma reverse_loop_ok:
  assumes "\<forall>x \<in> set xs. x < length hosts \<and> octets_ok (hosts ! x)"
    and "files w p = Some c"
  shows "reverse_loop p hosts xs w = (Inr (), put_file p (c @ concat (map (\<lambda>k. reverse_rec (hosts ! k)) xs)) w)"
  using assms
proof (induction xs arbitrary: w c)
  case Nil
  then show ?case by (simp add: put_file_same)
next
  case (Cons x xs)
  then show ?case by (simp add: reverse_loop_step_ok del: reverse_loop.simps)
qed

lemma reverse_loop_bad:
  assumes "\<forall>x \<in> set ys. x < length hosts \<and> octets_ok (hosts ! x)"
    and "k < length hosts" and "\<not> octets_ok (hosts ! k)"
    and "files w p = Some c"
  shows "reverse_loop p hosts (ys @ k # zs) w =
    (Inl SystemExit, append_out (exc_str IndexError @ [LF] @ reverse_hint @ [LF])
                       (put_file p (c @ concat (map (\<lambda>k. reverse_rec (hosts ! k)) ys)) w))"
  using assms
proof (induction ys arbitrary: w c)
  case Nil
  then show ?case by (simp add: reverse_loop_step_bad put_file_same del: exc_str.simps reverse_loop.simps)
next
  case (Cons y ys)
  then show ?case by (simp add: reverse_loop_step_ok del: exc_str.simps reverse_loop.simps)
qed

lemma reverse_loop_writes_only: "writes_only p (reverse_loop p hosts xs)"
  by (induction xs) (simp only: reverse_loop.simps; intro frame_rules; assumption)+

lemma create_reverse_zone_file_writes_only: "writes_only p (create_reverse_zone_file p header hosts domains)"
  unfolding create_reverse_zone_file_def by (intro frame_rules reverse_loop_writes_only)

subsection \<open>The generator\<close>

lemma create_reverse_zone_file_prefix:
  "create_reverse_zone_file p header hosts domains w =
   reverse_loop p hosts [0..<length hosts] (put_file p (concat header @ [LF]) w)"
  by (simp add: create_reverse_zone_file_def fd_writelines_def ex_bind_def)

lemma create_reverse_zone_file_ok:
  assumes "\<forall>h \<in> set hosts. octets_ok h"
  shows "create_reverse_zone_file p header hosts domains w =
    (Inr (), put_file p (concat header @ [LF] @ reverse_records hosts) w)"
proof -
  have "\<forall>x \<in> set [0..<length hosts]. x < length hosts \<and> octets_ok (hosts ! x)"
    using assms by auto
  then show ?thesis
    by (simp add: create_reverse_zone_file_prefix reverse_loop_ok map_nth_upt reverse_records_def)
qed

text \<open>C11: when every host value has at least three dot-separated fields, the generator
  returns normally and the reverse zone file holds the header, one line feed and one
  \<^verbatim>\<open>NS\<close> line per host in input order; the domain list plays no part.\<close>

theorem create_reverse_zone_file_content:
  assumes "\<forall>h \<in> set hosts. octets_ok h"
  shows "create_reverse_zone_file p header hosts domains w =
    (Inr (), put_file p (concat header @ [LF] @ reverse_records hosts) w)"
  using assms by (rule create_reverse_zone_file_ok)

lemma create_reverse_zone_file_content_witness:
  "octets_ok (''ns.example.com.'', ''IN'', ''192.168.1.1'') \<and>
   create_reverse_zone_file ''/tmp/r'' [''; header'' @ [LF]] [(''ns.example.com.'', ''IN'', ''192.168.1.1'')] [] \<lparr>files = Map.empty, stdout = []\<rparr> =
   (Inr (), put_file ''/tmp/r'' (''; header'' @ [LF, LF] @ ''1.168.192.in-addr.arpa. '' @ [TAB] @ ''IN '' @ [TAB] @ ''NS '' @ [TAB] @ ''ns.example.com.'' @ [LF]) \<lparr>files = Map.empty, stdout = []\<rparr>)"
proof -
  have o: "\<forall>h \<in> set [(''ns.example.com.'', ''IN'', ''192.168.1.1'')]. octets_ok h" by (simp add: octets_ok_def)
  show ?thesis
    using create_reverse_zone_file_content [OF o, where p = "''/tmp/r''" and header = "[''; header'' @ [LF]]"
            and domains = "[]" and w = "\<lparr>files = Map.empty, stdout = []\<rparr>"] o
    by (simp add: reverse_records_def reverse_rec_def arpa_of_def reverse_line_def)
qed

lemma create_reverse_zone_file_stop:
  assumes "k < length hosts" "\<forall>i < k. octets_ok (hosts ! i)" "\<not> octets_ok (hosts ! k)"
  shows "create_reverse_zone_file p header hosts domains w =
    (Inl SystemExit, append_out (exc_str IndexError @ [LF] @ reverse_hint @ [LF])
                       (put_file p (concat header @ [LF] @ reverse_records (take k hosts)) w))"
proof -
  have "\<forall>x \<in> set [0..<k]. x < length hosts \<and> octets_ok (hosts ! x)"
    using assms by auto
  with assms show ?thesis
    by (simp add: create_reverse_zone_file_prefix upt_split_at reverse_loop_bad map_nth_upt
                  reverse_records_def del: exc_str.simps)
qed

lemma create_reverse_zone_file_some_bad:
  assumes "\<not> list_all octets_ok hosts"
  shows "\<exists>s. create_reverse_zone_file p header hosts domains w =
    (Inl SystemExit, append_out (exc_str IndexError @ [LF] @ reverse_hint @ [LF]) (put_file p s w))"
proof -
  have "\<exists>k. k < length hosts \<and> \<not> octets_ok (hosts ! k)"
    using assms by (auto simp: list_all_length)
  then obtain k where k: "k < length hosts \<and> \<not> octets_ok (hosts ! k)"
    and least: "\<forall>i < k. \<not> (i < length hosts \<and> \<not> octets_ok (hosts ! i))"
    by (auto simp only: exists_least_iff [of "\<lambda>k. k < length hosts \<and> \<not> octets_ok (hosts ! k)"])
  have "\<forall>i < k. octets_ok (hosts ! i)"
    using k least by auto
  then show ?thesis
    using create_reverse_zone_file_stop [of k hosts] k by blast
qed

text \<open>C12: at the first host whose value has fewer than three dot-separated fields the
  generator stops: the lines of the hosts before it are in the file, the exception and
  the message are printed, and \<^verbatim>\<open>exit()\<close> raises \<^verbatim>\<open>SystemExit\<close>.\<close>

theorem create_reverse_zone_file_malformed:
  assumes "k < length hosts" "\<forall>i < k. octets_ok (hosts ! i)" "\<not> octets_ok (hosts ! k)"
  shows "create_reverse_zone_file p header hosts domains w =
    (Inl SystemExit, append_out (exc_str IndexError @ [LF] @ reverse_hint @ [LF])
                       (put_file p (concat header @ [LF] @ reverse_records (take k hosts)) w))"
  using assms by (rule create_reverse_zone_file_stop)

lemma create_reverse_zone_file_malformed_witness:
  "1 < length [(''ns.example.com.'', ''IN'', ''192.168.1.1''), (''bad.example.com.'', ''IN'', ''10.0'')] \<and> octets_ok ([(''ns.example.com.'', ''IN'', ''192.168.1.1''), (''bad.example.com.'', ''IN'', ''10.0'')] ! 0) \<and> \<not> octets_ok ([(''ns.example.com.'', ''IN'', ''192.168.1.1''), (''bad.example.com.'', ''IN'', ''10.0'')] ! 1) \<and>
   create_reverse_zone_file ''/tmp/r'' [] [(''ns.example.com.'', ''IN'', ''192.168.1.1''), (''bad.example.com.'', ''IN'', ''10.0'')] [] \<lparr>files = Map.empty, stdout = []\<rparr> =
   (Inl SystemExit, append_out (''list index out of range'' @ [LF] @ reverse_hint @ [LF])
                      (put_file ''/tmp/r'' ([LF] @ ''1.168.192.in-addr.arpa. '' @ [TAB] @ ''IN '' @ [TAB] @ ''NS '' @ [TAB] @ ''ns.example.com.'' @ [LF]) \<lparr>files = Map.empty, stdout = []\<rparr>))"
proof -
  have o: "\<forall>i < 1. octets_ok ([(''ns.example.com.'', ''IN'', ''192.168.1.1''), (''bad.example.com.'', ''IN'', ''10.0'')] ! i)" by (simp add: octets_ok_def)
  have b: "\<not> octets_ok ([(''ns.example.com.'', ''IN'', ''192.168.1.1''), (''bad.example.com.'', ''IN'', ''10.0'')] ! 1)" by (simp add: octets_ok_def)
  show ?thesis
    using create_reverse_zone_file_malformed [of 1 "[(''ns.example.com.'', ''IN'', ''192.168.1.1''), (''bad.example.com.'', ''IN'', ''10.0'')]", OF _ o b, where p = "''/tmp/r''"
            and header = "[]" and domains = "[]" and w = "\<lparr>files = Map.empty, stdout = []\<rparr>"] o b
    by (simp add: reverse_records_def reverse_rec_def arpa_of_def reverse_line_def)
qed

subsection \<open>Reverse lines split back into their fields\<close>

lemma is_token_NS [simp]: "is_token ''NS''"
  by (simp add: is_token_def py_isspace_def)

lemma arpa_of_token:
  assumes "is_token v" "3 \<le> length (py_split_sep (CHR ''.'') v)"
  shows "is_token (arpa_of (py_split_sep (CHR ''.'') v))"
proof -
  let ?ip = "py_split_sep (CHR ''.'') v"
  have sub: "\<forall>c \<in> set (?ip ! i). \<not> py_isspace c" if i: "i < 3" for i
  proof -
    have "?ip ! i \<in> set ?ip" using i assms(2) by simp
    then have "set (?ip ! i) \<subseteq> set v" by (rule py_split_sep_subset)
    then show ?thesis using assms(1) by (auto simp: is_token_def)
  qed
  have lit: "\<forall>c \<in> set (''.'' @ ''.in-addr.arpa.''). \<not> py_isspace c"
    by (simp add: py_isspace_def)
  have "\<forall>c \<in> set (arpa_of ?ip). \<not> py_isspace c"
    using sub [of 0] sub [of 1] sub [of 2] lit unfolding arpa_of_def set_append ball_Un by simp
  then show ?thesis by (simp add: is_token_def arpa_of_def)
qed

text \<open>C26: a reverse zone line, split on white space, gives the reversed name, the class
  \<^verbatim>\<open>IN\<close>, the type \<^verbatim>\<open>NS\<close> and the host's name, for a host whose fields are tokens
  and whose value has at least three dot-separated fields.\<close>

theorem reverse_rec_resplit:
  assumes "token_entry h" "octets_ok h"
  shows "py_split_ws (reverse_rec h) = [arpa_of (py_split_sep (CHR ''.'') (snd (snd h))), ''IN'', ''NS'', fst h]"
proof -
  obtain n t v where h: "h = (n, t, v)" by (cases h) auto
  let ?a = "arpa_of (py_split_sep (CHR ''.'') v)"
  have tok: "is_token n" "is_token ?a"
    using assms arpa_of_token [of v] by (simp_all add: h token_entry_def octets_ok_def)
  have l: "reverse_rec (n, t, v) =
     ?a @ CHR '' '' # (TAB # (''IN'' @ CHR '' '' # (TAB # (''NS'' @ CHR '' '' # (TAB # (n @ LF # []))))))"
    by (simp add: reverse_rec_def reverse_line_def)
  show ?thesis
    unfolding h l
    by (simp only: tok py_split_ws_token_Cons py_split_ws_space_Cons py_isspace_TAB_SP py_isspace_LF
                   is_token_IN is_token_NS py_split_ws_Nil snd_conv fst_conv)
qed

lemma reverse_rec_resplit_witness:
  "token_entry (''ns.example.com.'', ''IN'', ''192.168.1.1'') \<and> octets_ok (''ns.example.com.'', ''IN'', ''192.168.1.1'') \<and>
   py_split_ws (reverse_rec (''ns.example.com.'', ''IN'', ''192.168.1.1'')) =
     [''1.168.192.in-addr.arpa.'', ''IN'', ''NS'', ''ns.example.com.'']"
proof -
  have t: "token_entry (''ns.example.com.'', ''IN'', ''192.168.1.1'')"
    by (simp add: token_entry_def is_token_def py_isspace_def)
  have o: "octets_ok (''ns.example.com.'', ''IN'', ''192.168.1.1'')" by (simp add: octets_ok_def)
  show ?thesis
    using reverse_rec_resplit [OF t o] t o by (simp add: arpa_of_def)
qed

subsection \<open>Lines of the reverse zone file\<close>

lemma reverse_rec_count:
  assumes "token_entry h" "octets_ok h"
  shows "count_list (reverse_rec h) LF = 1 \<and> last (reverse_rec h) = LF"
proof -
  obtain n t v where h: "h = (n, t, v)" by (cases h) auto
  have "is_token n" "is_token (arpa_of (py_split_sep (CHR ''.'') v))"
    using assms arpa_of_token [of v] by (simp_all add: h token_entry_def octets_ok_def)
  then show ?thesis
    by (auto simp: h reverse_rec_def reverse_line_def dest!: is_token_no_LF)
qed

lemma reverse_records_lines:
  assumes "\<forall>h \<in> set hosts. token_entry h \<and> octets_ok h"
  shows "count_list (reverse_records hosts) LF = length hosts \<and>
         (reverse_records hosts = [] \<or> last (reverse_records hosts) = LF)"
  using assms
proof (induction hosts)
  case Nil
  then show ?case by (simp add: reverse_records_def)
next
  case (Cons h hs)
  then show ?case
    using reverse_rec_count [of h] by (auto simp: reverse_records_def last_append)
qed

text \<open>C29: when the header text is empty or ends in a line feed and every host is made
  of tokens with a value of at least three dot-separated fields, the reverse zone file
  has one line per host after the header lines and the blank line.\<close>

theorem reverse_zone_line_count:
  assumes "\<forall>h \<in> set hosts. token_entry h \<and> octets_ok h"
    and "header = py_readlines htext" "htext = [] \<or> last htext = LF"
  shows "\<exists>w'. create_reverse_zone_file p header hosts domains w = (Inr (), w') \<and>
     map_option (\<lambda>c. length (py_readlines c)) (files w' p) = Some (length hosts + length header + 1)"
proof -
  have ok: "\<forall>h \<in> set hosts. octets_ok h" using assms(1) by blast
  have hl: "length header = count_list htext LF"
    using assms(2,3) by (auto simp: length_py_readlines)
  have "last (htext @ LF # reverse_records hosts) = LF"
    using reverse_records_lines [OF assms(1)] by auto
  then have "length (py_readlines (htext @ LF # reverse_records hosts)) = count_list htext LF + 1 + length hosts"
    using reverse_records_lines [OF assms(1)] by (simp add: length_py_readlines)
  then show ?thesis
    using hl assms(2) by (simp add: create_reverse_zone_file_ok [OF ok])
qed

lemma reverse_zone_line_count_witness:
  "token_entry (''ns.example.com.'', ''IN'', ''192.168.1.1'') \<and> octets_ok (''ns.example.com.'', ''IN'', ''192.168.1.1'') \<and>
   [''; header'' @ [LF]] = py_readlines (''; header'' @ [LF]) \<and> last (''; header'' @ [LF]) = LF \<and>
   (\<exists>w'. create_reverse_zone_file ''/tmp/r'' [''; header'' @ [LF]] [(''ns.example.com.'', ''IN'', ''192.168.1.1'')] [] \<lparr>files = Map.empty, stdout = []\<rparr> = (Inr (), w') \<and>
     map_option (\<lambda>c. length (py_readlines c)) (files w' ''/tmp/r'') = Some 3)"
proof -
  have t: "token_entry (''ns.example.com.'', ''IN'', ''192.168.1.1'')"
    by (simp add: token_entry_def is_token_def py_isspace_def)
  have o: "octets_ok (''ns.example.com.'', ''IN'', ''192.168.1.1'')" by (simp add: octets_ok_def)
  have r: "[''; header'' @ [LF]] = py_readlines (''; header'' @ [LF])" by (simp add: py_readlines_def)
  show ?thesis
    using reverse_zone_line_count [where hosts = "[(''ns.example.com.'', ''IN'', ''192.168.1.1'')]" and p = "''/tmp/r''"
            and header = "[''; header'' @ [LF]]" and htext = "''; header'' @ [LF]" and domains = "[]"
            and w = "\<lparr>files = Map.empty, stdout = []\<rparr>"] t o r
    by (simp add: py_readlines_def numeral_3_eq_3)
qed

end
