(* ===== verification/Spec2Isabelle.thy ===== *)
theory Spec2Isabelle
  imports Header_Loader Config_Parser Backup Zone_File Reverse_Zone
begin

text \<open>
  \<^bold>\<open>A verified model of \<^verbatim>\<open>src/dnsconfig.py\<close>.\<close>

  \<^bold>\<open>The program.\<close> One Python script generates a forward and a reverse DNS zone file from
  \<^verbatim>\<open>./host.conf\<close> and \<^verbatim>\<open>./header.conf\<close>.  Its \<^verbatim>\<open>__main__\<close> block calls, in order,
  \<^verbatim>\<open>readConfig\<close> (zone paths, \<^verbatim>\<open>HOST:\<close> and \<^verbatim>\<open>DOMAIN:\<close> entries), \<^verbatim>\<open>readHeader\<close>,
  \<^verbatim>\<open>backup\<close> (copies both zone files to \<^verbatim>\<open>./zoneFile.bak\<close> and \<^verbatim>\<open>./reverseFile.bak\<close>),
  \<^verbatim>\<open>createZoneFile\<close> and \<^verbatim>\<open>createReverseZoneFile\<close>.  The components share no state but
  the file system and standard output.  Each hands its result to the next through
  \<^verbatim>\<open>__main__\<close>'s local variables.

  \<^bold>\<open>The model.\<close> A shallow embedding in an exception-and-state monad.  A computation
  \<open>'a exec\<close> maps a \<open>world\<close> (record: \<open>files\<close>, a map from path strings to contents,
  and \<open>stdout\<close>) to either an \<open>abort\<close> (a raised \<open>py_exc\<close> or \<^verbatim>\<open>SystemExit\<close>) or a
  value, together with the world at that point.  So a file truncated before an exception
  stays truncated.  The theories, in import order:
  \<^item> \<open>Py_Prelude\<close>: exceptions, the world, the monad (\<open>ex_bind\<close>, \<open>ex_lift\<close>,
    \<open>sbind\<close>) and shared list lemmas.
  \<^item> \<open>Py_Strings\<close>: the built-ins \<^verbatim>\<open>str.isspace\<close>, \<^verbatim>\<open>strip\<close>, \<^verbatim>\<open>split()\<close>
    (\<open>py_split_ws\<close>, terminating by the measure \<open>length\<close>), \<^verbatim>\<open>split(".")\<close>,
    \<^verbatim>\<open>readlines\<close>, universal newlines (\<open>univ_nl\<close>) and \<^verbatim>\<open>IndexError\<close> indexing.
  \<^item> \<open>Py_IO\<close>: \<^verbatim>\<open>open\<close> for reading and writing, \<^verbatim>\<open>write\<close>, \<^verbatim>\<open>writelines\<close>,
    \<^verbatim>\<open>print\<close>, \<^verbatim>\<open>exit\<close> and \<^verbatim>\<open>try/except IndexError\<close>.  Worlds change only
    through \<open>put_file\<close> and \<open>append_out\<close>.  The predicate \<open>writes_only p m\<close>
    (\<open>m\<close> changes no file but \<open>p\<close>, whatever happens) comes with compositional rules,
    collected as \<open>frame_rules\<close>, for every operation and for bind and try.
  \<^item> \<open>Header_Loader\<close>: \<open>read_header\<close> = \<^verbatim>\<open>readHeader\<close> (lines 1--10).
  \<^item> \<open>Config_Parser\<close>: \<open>read_config\<close> = \<^verbatim>\<open>readConfig\<close> (lines 40--67).  The loop's
    locals form the record \<open>cfg_state\<close>, an unassigned variable being \<open>None\<close>; the body
    is \<open>config_line\<close>, the loop \<open>config_lines\<close>, the return \<open>config_result\<close>.  The
    abstract specification \<open>config_spec\<close> (last path value, entries in order) is
    refined by the loop (\<open>config_lines_spec\<close>).
  \<^item> \<open>Backup\<close>: \<open>backup\<close> = \<^verbatim>\<open>backup\<close> (lines 13--37); each guarded block is
    \<open>backup_file\<close>.
  \<^item> \<open>Zone_File\<close>: \<open>create_zone_file\<close> = \<^verbatim>\<open>createZoneFile\<close> (lines 70--103).  The
    loop over \<^verbatim>\<open>range(len(domains))\<close> is \<open>zone_loop\<close> over the index list; the
    format strings are \<open>domain_line\<close> and \<open>host_line\<close>; the abstract content is
    \<open>zone_records\<close>, over the zip of the two lists.
  \<^item> \<open>Reverse_Zone\<close>: \<open>create_reverse_zone_file\<close> = \<^verbatim>\<open>createReverseZoneFile\<close>
    (lines 106--136), with \<open>reverse_arpa\<close>, \<open>reverse_line\<close>, \<open>reverse_loop\<close> and the
    abstract \<open>reverse_records\<close>.
  \<^item> this theory: \<open>run_main\<close> = the \<^verbatim>\<open>__main__\<close> block (lines 139--150);
    \<open>exit_status\<close>; the specification's example world and the test configurations;
    the error model of the specification (section 7) as the datatype \<open>outcome\<close>, with
    \<open>observe\<close> (what an operator sees of a run) and \<open>expected_outcome\<close> (the outcome
    predicted from the inputs through \<open>config_spec\<close>).

  \<^bold>\<open>What is proved\<close> (claim ids in brackets).
  \<^item> Generators: the forward zone content when there are enough hosts [C1]; its behaviour
    on a missing host [C3]; line counts [C7, C8]; zone lines split back into their
    fields [C16]; hosts beyond the number of domains play no part [C28].  The reverse
    name [C2]; the reverse content [C11]; its behaviour on a malformed address [C12];
    reverse lines split back into their fields [C26]; the reverse line count [C29].
    Each generator writes only its own file (\<open>create_zone_file_writes_only\<close>,
    \<open>create_reverse_zone_file_writes_only\<close>).
  \<^item> Parser: refinement of the specification [C5]; the unbound-path error [C9]; short
    lines [C15]; the last occurrence wins [C20]; blank and unknown lines are ignored
    [C27]; every pass of the loop keeps its locals well formed (\<open>cfg_wf\<close>), so every
    entry is made of tokens [C32].
  \<^item> Backup: the copies made [C4]; a \<^verbatim>\<open>None\<close> path is skipped, the call being the other
    block alone [C10]; missing files [C14]; byte-identity exactly without carriage
    returns [C22].  Header: nothing lost [C18].
  \<^item> Pipeline: the end-to-end example [C6]; a normal run [C13]; a first run with no zone
    file yet [C17]; aliased zone paths [C19]; a host/domain mismatch ending with status 0
    [C21]; configuration errors aborting before any write [C23]; the files a run may
    change, on every path [C24]; the reverse handler marked "should never happen"
    reached from \<^verbatim>\<open>host.conf\<close> [C25]; the run refines the error model, for every
    world [C30]; the exit status by error class [C31].
  Every loop in the script is a \<^verbatim>\<open>for\<close> over a finite list.  The model recurses
  structurally over the same list, so no fuel or bound is needed.  The only
  non-structural recursion, \<open>py_split_ws\<close>, terminates by the measure \<open>length\<close>.

  \<^bold>\<open>Findings\<close>, each proved by the theorem whose claim id is given.
  \<^item> On a missing host, the domain line of the unmatched index is written (the
    specification says it is not) [C3].
  \<^item> A header without a final line feed gets no blank line [C8].
  \<^item> Backups are not byte-identical for CRLF files [C22].
  \<^item> \<^verbatim>\<open>backup\<close> raises on a first run, contrary to its docstring [C17].
  \<^item> The \<^verbatim>\<open>None\<close> guards of \<^verbatim>\<open>backup\<close> cannot be reached, because
    \<^verbatim>\<open>readConfig\<close> raises instead [C9].
  \<^item> Surplus hosts are dropped silently from the forward zone [C1, C28].
  \<^item> The reverse handler that "should never happen" is reached by any host value with
    fewer than three dot-separated fields, which the parser accepts [C25].
  \<^item> A zone path written with a blank in it is cut at the blank: \<^verbatim>\<open>split()\<close> makes
    every value a token [C32].

  \<^bold>\<open>Not modelled.\<close>
  \<^item> Text is ASCII: non-ASCII white space (U+0085, U+00A0 and others, which Python's
    \<^verbatim>\<open>split\<close> also splits on) and UTF-8 decoding errors are out of scope.
  \<^item> Paths are compared as strings: \<^verbatim>\<open>./a\<close> and \<^verbatim>\<open>a\<close> are different files here.
  \<^item> Opening a file for writing always succeeds: permission and missing-directory errors
    are not modelled.
  \<^item> Reading fails only with \<^verbatim>\<open>FileNotFoundError\<close>, for a path absent from
    \<open>files\<close>: opening a directory (\<^verbatim>\<open>IsADirectoryError\<close>) or an unreadable file
    (\<^verbatim>\<open>PermissionError\<close>) is not modelled, the world having no directories or
    permissions.
  \<^item> Tracebacks on standard error are not modelled; an uncaught exception appears only as
    exit status 1.
  \<^item> Other processes touching the files are not modelled.
  For these reasons the Python runtime is only partly modelled.  A character here is
  a byte: Unicode white space would need strings of code points throughout.  A
  failing read or write would need the directory tree and permissions in the world.  Neither
  path is taken on the ASCII configuration files the specification describes.  Every
  other operation the script calls is modelled, and so is every line of the script.
\<close>

text \<open>
  The script's entry point, \<^verbatim>\<open>if __name__ == "__main__":\<close> (\<^verbatim>\<open>src/dnsconfig.py\<close>,
  lines 139--150): read the configuration, read the header, back up both zone files,
  write the forward zone file, write the reverse zone file.  The first abort ends the run.
\<close>

definition run_main :: "unit exec" where
  "run_main =
     ex_bind read_config (\<lambda>cfg.
     ex_bind read_header (\<lambda>header.
     ex_bind (backup (Some (zone_file cfg)) (Some (reverse_zone_file cfg))) (\<lambda>_.
     ex_bind (create_zone_file (zone_file cfg) header (conf_hosts cfg) (conf_domains cfg)) (\<lambda>_.
     create_reverse_zone_file (reverse_zone_file cfg) header (conf_hosts cfg) (conf_domains cfg)))))"

text \<open>
  The process exit status: \<^verbatim>\<open>exit()\<close> raises \<^verbatim>\<open>SystemExit\<close> with no code, which
  exits with status 0; an uncaught exception prints a traceback and exits with status 1.
\<close>

definition exit_status :: "abort + unit \<Rightarrow> nat" where
  "exit_status r = (case r of Inr _ \<Rightarrow> 0 | Inl SystemExit \<Rightarrow> 0 | Inl (Raise _) \<Rightarrow> 1)"

text \<open>
  The outcomes of a run, as the error classes of the specification (section 7) name
  them: a missing file (fatal, with a traceback), a configuration fault raised by the
  parser, a host/domain mismatch and a malformed address (both caught, with a message).
\<close>

datatype outcome = Completed | MissingResource string | ConfigFault py_exc | RecordMismatch | MalformedAddress

fun exc_outcome :: "py_exc \<Rightarrow> outcome" where
  "exc_outcome (FileNotFoundError p) = MissingResource p"
| "exc_outcome e = ConfigFault e"

text \<open>What an operator sees of a run from \<open>w0\<close>: the exception, or for \<^verbatim>\<open>exit()\<close>
  which message was printed.\<close>

fun observe_abort :: "world \<Rightarrow> world \<Rightarrow> abort \<Rightarrow> outcome" where
  "observe_abort w0 w1 (Raise e) = exc_outcome e"
| "observe_abort w0 w1 SystemExit =
     (if stdout w1 = stdout w0 @ exc_str IndexError @ [LF] @ zone_hint @ [LF] then RecordMismatch
      else MalformedAddress)"

definition observe :: "world \<Rightarrow> (abort + unit) \<times> world \<Rightarrow> outcome" where
  "observe w0 r = (case fst r of Inr _ \<Rightarrow> Completed | Inl a \<Rightarrow> observe_abort w0 (snd r) a)"

text \<open>The outcome the specification predicts from the inputs alone: the files present
  and the abstract reading \<open>config_spec\<close> of \<^verbatim>\<open>host.conf\<close>, checked in the order of
  the pipeline.  The reverse zone file is needed unless it is the zone backup path,
  which the backup has just written.\<close>

definition files_outcome :: "world \<Rightarrow> config \<Rightarrow> outcome" where
  "files_outcome w cfg =
     (if files w header_path = None then MissingResource header_path
      else if files w (zone_file cfg) = None then MissingResource (zone_file cfg)
      else if reverse_zone_file cfg \<noteq> zone_bak \<and> files w (reverse_zone_file cfg) = None
      then MissingResource (reverse_zone_file cfg)
      else if length (conf_hosts cfg) < length (conf_domains cfg) then RecordMismatch
      else if \<not> list_all octets_ok (conf_hosts cfg) then MalformedAddress
      else Completed)"

definition expected_outcome :: "world \<Rightarrow> outcome" where
  "expected_outcome w =
     (case files w host_conf of
        None \<Rightarrow> MissingResource host_conf
      | Some c \<Rightarrow>
          (let ts = map line_tokens (py_readlines (univ_nl c)) in
           if \<not> list_all line_ok ts then ConfigFault IndexError
           else (case config_result (config_spec cfg_init ts) of
                   Inl e \<Rightarrow> ConfigFault e
                 | Inr cfg \<Rightarrow> files_outcome w cfg)))"

text \<open>The example of the specification: a configuration with one domain and one host.\<close>

definition example_conf :: string where
  "example_conf =
     ''ZONE_FILE: /tmp/z'' @ [LF] @ ''REVERSE_ZONE_FILE: /tmp/r'' @ [LF] @
     ''DOMAIN: example.com. IN NS'' @ [LF] @ ''HOST: ns.example.com. IN 192.168.1.1'' @ [LF]"

text \<open>A world holding a given \<^verbatim>\<open>host.conf\<close>, a one-line header and two old zone files.\<close>

definition test_world :: "string \<Rightarrow> world" where
  "test_world conf =
     \<lparr>files = [host_conf \<mapsto> conf, header_path \<mapsto> ''; header'' @ [LF],
               ''/tmp/z'' \<mapsto> ''old zone'', ''/tmp/r'' \<mapsto> ''old reverse''],
      stdout = []\<rparr>"

definition example_world :: world where
  "example_world = test_world example_conf"

text \<open>Further configurations the witnesses run on.\<close>

definition new_zone_conf :: string where
  "new_zone_conf = ''ZONE_FILE: /tmp/new'' @ [LF] @ ''REVERSE_ZONE_FILE: /tmp/r'' @ [LF]"

definition alias_conf :: string where
  "alias_conf = ''ZONE_FILE: /tmp/z'' @ [LF] @ ''REVERSE_ZONE_FILE: /tmp/z'' @ [LF] @
     ''DOMAIN: example.com. IN NS'' @ [LF] @ ''HOST: ns.example.com. IN 192.168.1.1'' @ [LF]"

definition no_hosts_conf :: string where
  "no_hosts_conf = ''ZONE_FILE: /tmp/z'' @ [LF] @ ''REVERSE_ZONE_FILE: /tmp/r'' @ [LF] @
     ''DOMAIN: example.com. IN NS'' @ [LF]"

definition no_zone_conf :: string where
  "no_zone_conf = ''REVERSE_ZONE_FILE: /tmp/r'' @ [LF] @ ''HOST: ns.example.com. IN 192.168.1.1'' @ [LF]"

definition short_host_conf :: string where
  "short_host_conf = ''ZONE_FILE: /tmp/z'' @ [LF] @ ''HOST: ns.example.com. IN'' @ [LF]"

definition two_zones_conf :: string where
  "two_zones_conf = ''ZONE_FILE: /tmp/a'' @ [LF] @ ''ZONE_FILE: /tmp/z'' @ [LF] @ ''REVERSE_ZONE_FILE: /tmp/r'' @ [LF]"

definition bad_ip_conf :: string where
  "bad_ip_conf = ''ZONE_FILE: /tmp/z'' @ [LF] @ ''REVERSE_ZONE_FILE: /tmp/r'' @ [LF] @
     ''DOMAIN: example.com. IN NS'' @ [LF] @ ''HOST: ns.example.com. IN 10.0'' @ [LF]"

definition example_cfg :: config where
  "example_cfg =
     \<lparr>zone_file = ''/tmp/z'', reverse_zone_file = ''/tmp/r'',
      conf_hosts = [(''ns.example.com.'', ''IN'', ''192.168.1.1'')],
      conf_domains = [(''example.com.'', ''IN'', ''NS'')]\<rparr>"

subsection \<open>The example configuration\<close>

lemma example_parse:
  "sbind (config_lines cfg_init (py_readlines (univ_nl example_conf))) config_result = Inr example_cfg"
  by code_simp

lemma test_world_files:
  "files (test_world conf) host_conf = Some conf"
  "files (test_world conf) header_path = Some (''; header'' @ [LF])"
  "files (test_world conf) ''/tmp/z'' = Some ''old zone''"
  "files (test_world conf) ''/tmp/r'' = Some ''old reverse''"
  "stdout (test_world conf) = []"
  by (simp_all add: test_world_def host_conf_def header_path_def)

lemmas example_files = test_world_files [of example_conf, folded example_world_def]

lemma read_config_test_world:
  "sbind (config_lines cfg_init (py_readlines (univ_nl conf))) config_result = r \<Longrightarrow>
   read_config (test_world conf) = ex_lift r (test_world conf)"
  using read_config_apply [OF test_world_files(1)] by simp

lemma read_config_test_world_Inr:
  assumes p: "sbind (config_lines cfg_init (py_readlines (univ_nl conf))) config_result = Inr cfg"
  shows "read_config (test_world conf) = (Inr cfg, test_world conf)"
  using read_config_test_world [OF p] by simp

lemma read_config_example: "read_config example_world = (Inr example_cfg, example_world)"
  using read_config_test_world [OF example_parse] by (simp add: example_world_def)

lemma example_cfg_sel [simp]:
  "zone_file example_cfg = ''/tmp/z''" "reverse_zone_file example_cfg = ''/tmp/r''"
  "conf_hosts example_cfg = [(''ns.example.com.'', ''IN'', ''192.168.1.1'')]"
  "conf_domains example_cfg = [(''example.com.'', ''IN'', ''NS'')]"
  by (simp_all add: example_cfg_def)

subsection \<open>The run\<close>

text \<open>A run whose configuration, header and zone files are all there and well formed.\<close>

lemma run_main_ok:
  assumes "read_config w = (Inr cfg, w)" "files w header_path = Some hc"
    and "files w (zone_file cfg) = Some cz" "files w (reverse_zone_file cfg) = Some cr"
    and "reverse_zone_file cfg \<noteq> zone_bak"
    and "length (conf_domains cfg) \<le> length (conf_hosts cfg)" "\<forall>h \<in> set (conf_hosts cfg). octets_ok h"
  shows "run_main w =
    (Inr (),
     put_file (reverse_zone_file cfg) (univ_nl hc @ [LF] @ reverse_records (conf_hosts cfg))
      (put_file (zone_file cfg) (univ_nl hc @ [LF] @ zone_records (conf_hosts cfg) (conf_domains cfg))
        (put_file reverse_bak (univ_nl cr) (put_file zone_bak (univ_nl cz) w))))"
  using assms
  by (simp add: run_main_def ex_bind_def read_header_ok backup_ok create_zone_file_ok
                create_reverse_zone_file_ok)

text \<open>C6: on the example the run returns normally, both old zone files are backed up, and
  the two zone files hold exactly the lines the format strings produce.\<close>

theorem run_main_example:
  "run_main example_world =
    (Inr (),
     put_file ''/tmp/r''
       (''; header'' @ [LF, LF] @ ''1.168.192.in-addr.arpa. '' @ [TAB] @ ''IN '' @ [TAB] @ ''NS '' @ [TAB] @
        ''ns.example.com.'' @ [LF])
       (put_file ''/tmp/z''
         (''; header'' @ [LF, LF] @ ''example.com.'' @ [TAB, TAB] @ ''IN'' @ [TAB] @ ''IN'' @ [TAB] @ ''NS'' @ [LF] @
          ''ns.example.com.  '' @ [TAB] @ ''IN'' @ [TAB] @ ''IN'' @ [TAB] @ ''192.168.1.1'' @ [LF])
         (put_file reverse_bak ''old reverse'' (put_file zone_bak ''old zone'' example_world))))"
proof -
  have "octets_ok (''ns.example.com.'', ''IN'', ''192.168.1.1'')"
    by (simp add: octets_ok_def)
  then show ?thesis
    using run_main_ok [OF read_config_example example_files(2)] example_files(3,4)
    by (simp add: zone_bak_def reverse_bak_def zone_records_def domain_line_def host_line_def
                  reverse_records_def reverse_rec_def arpa_of_def reverse_line_def)
qed

text \<open>C13: a run whose configuration parses, whose header and both zone files exist, with
  at least as many hosts as domains and host values of at least three dot-separated
  fields, returns normally; it leaves the old zone files in the backup paths and the new
  forward and reverse zone files at the configured paths, in that order of writing.\<close>

theorem run_main_success:
  assumes "read_config w = (Inr cfg, w)" "files w header_path = Some hc"
    and "files w (zone_file cfg) = Some cz" "files w (reverse_zone_file cfg) = Some cr"
    and "reverse_zone_file cfg \<noteq> zone_bak"
    and "length (conf_domains cfg) \<le> length (conf_hosts cfg)" "\<forall>h \<in> set (conf_hosts cfg). octets_ok h"
  shows "run_main w =
    (Inr (),
     put_file (reverse_zone_file cfg) (univ_nl hc @ [LF] @ reverse_records (conf_hosts cfg))
      (put_file (zone_file cfg) (univ_nl hc @ [LF] @ zone_records (conf_hosts cfg) (conf_domains cfg))
        (put_file reverse_bak (univ_nl cr) (put_file zone_bak (univ_nl cz) w))))"
  using assms by (rule run_main_ok)

lemma run_main_success_witness:
  "read_config example_world = (Inr example_cfg, example_world) \<and>
   files example_world header_path = Some (''; header'' @ [LF]) \<and>
   files example_world (zone_file example_cfg) = Some ''old zone'' \<and>
   files example_world (reverse_zone_file example_cfg) = Some ''old reverse'' \<and>
   reverse_zone_file example_cfg \<noteq> zone_bak \<and>
   length (conf_domains example_cfg) \<le> length (conf_hosts example_cfg) \<and>
   octets_ok (''ns.example.com.'', ''IN'', ''192.168.1.1'') \<and>
   fst (run_main example_world) = Inr ()"
proof -
  have o: "\<forall>h \<in> set (conf_hosts example_cfg). octets_ok h" by (simp add: octets_ok_def)
  have z: "reverse_zone_file example_cfg \<noteq> zone_bak" by (simp add: zone_bak_def)
  show ?thesis
    using run_main_success [OF read_config_example example_files(2) _ _ z _ o] example_files(3,4) o z
          read_config_example example_files(2)
    by simp
qed

text \<open>C17: on a first run, when a configured zone file does not exist yet, the backup step
  raises \<^verbatim>\<open>FileNotFoundError\<close>: no file is written and the process exits with status 1.\<close>

theorem run_main_missing_zone_file:
  assumes "read_config w = (Inr cfg, w)" "files w header_path = Some hc"
    and "files w (zone_file cfg) = None"
  shows "run_main w = (Inl (Raise (FileNotFoundError (zone_file cfg))), w) \<and> exit_status (fst (run_main w)) = 1"
  using assms by (simp add: run_main_def ex_bind_def read_header_ok backup_def backup_file_missing exit_status_def)

lemma run_main_missing_zone_file_witness:
  "read_config (test_world new_zone_conf) =
     (Inr \<lparr>zone_file = ''/tmp/new'', reverse_zone_file = ''/tmp/r'', conf_hosts = [], conf_domains = []\<rparr>,
      test_world new_zone_conf) \<and>
   files (test_world new_zone_conf) header_path = Some (''; header'' @ [LF]) \<and>
   files (test_world new_zone_conf) ''/tmp/new'' = None \<and>
   run_main (test_world new_zone_conf) = (Inl (Raise (FileNotFoundError ''/tmp/new'')), test_world new_zone_conf) \<and>
   exit_status (fst (run_main (test_world new_zone_conf))) = 1"
proof -
  let ?cfg = "\<lparr>zone_file = ''/tmp/new'', reverse_zone_file = ''/tmp/r'', conf_hosts = [], conf_domains = []\<rparr>"
  have p: "sbind (config_lines cfg_init (py_readlines (univ_nl new_zone_conf))) config_result = Inr ?cfg"
    by code_simp
  have r: "read_config (test_world new_zone_conf) = (Inr ?cfg, test_world new_zone_conf)"
    by (rule read_config_test_world_Inr [OF p])
  have n: "files (test_world new_zone_conf) (zone_file ?cfg) = None"
    by (simp add: test_world_def host_conf_def header_path_def)
  show ?thesis
    using run_main_missing_zone_file [OF r test_world_files(2) n] r test_world_files(2) n
    by (simp add: exit_status_def)
qed

text \<open>C19: when the configuration names the same path for both zone files, the reverse
  zone file, written last, is all that path holds: the forward zone file is lost.\<close>

theorem run_main_same_path:
  assumes "read_config w = (Inr cfg, w)" "files w header_path = Some hc"
    and "files w (zone_file cfg) = Some cz" "reverse_zone_file cfg = zone_file cfg"
    and "zone_file cfg \<noteq> zone_bak"
    and "length (conf_domains cfg) \<le> length (conf_hosts cfg)" "\<forall>h \<in> set (conf_hosts cfg). octets_ok h"
  shows "files (snd (run_main w)) (zone_file cfg) = Some (univ_nl hc @ [LF] @ reverse_records (conf_hosts cfg))"
  using run_main_ok [OF assms(1,2,3)] assms(3-7) by simp

lemma run_main_same_path_witness:
  "read_config (test_world alias_conf) =
     (Inr \<lparr>zone_file = ''/tmp/z'', reverse_zone_file = ''/tmp/z'',
           conf_hosts = [(''ns.example.com.'', ''IN'', ''192.168.1.1'')],
           conf_domains = [(''example.com.'', ''IN'', ''NS'')]\<rparr>, test_world alias_conf) \<and>
   files (test_world alias_conf) ''/tmp/z'' = Some ''old zone'' \<and> ''/tmp/z'' \<noteq> zone_bak \<and>
   octets_ok (''ns.example.com.'', ''IN'', ''192.168.1.1'') \<and>
   files (snd (run_main (test_world alias_conf))) ''/tmp/z'' =
     Some (''; header'' @ [LF, LF] @ ''1.168.192.in-addr.arpa. '' @ [TAB] @ ''IN '' @ [TAB] @ ''NS '' @ [TAB] @
           ''ns.example.com.'' @ [LF])"
proof -
  let ?cfg = "\<lparr>zone_file = ''/tmp/z'', reverse_zone_file = ''/tmp/z'',
           conf_hosts = [(''ns.example.com.'', ''IN'', ''192.168.1.1'')],
           conf_domains = [(''example.com.'', ''IN'', ''NS'')]\<rparr>"
  have p: "sbind (config_lines cfg_init (py_readlines (univ_nl alias_conf))) config_result = Inr ?cfg"
    by code_simp
  have r: "read_config (test_world alias_conf) = (Inr ?cfg, test_world alias_conf)"
    by (rule read_config_test_world_Inr [OF p])
  have o: "octets_ok (''ns.example.com.'', ''IN'', ''192.168.1.1'')" by (simp add: octets_ok_def)
  have z: "''/tmp/z'' \<noteq> zone_bak" by (simp add: zone_bak_def)
  show ?thesis
    using run_main_same_path [OF r test_world_files(2), where cz = "''old zone''"] r test_world_files(3) o z
    by (simp add: reverse_records_def reverse_rec_def arpa_of_def reverse_line_def)
qed

text \<open>C21: with fewer hosts than domains the run ends in \<^verbatim>\<open>exit()\<close> during the forward
  zone file: the backups are made, the forward zone file is left half written, the reverse
  zone file is not touched, and the exit status is 0.\<close>

theorem run_main_mismatch:
  assumes "read_config w = (Inr cfg, w)" "files w header_path = Some hc"
    and "files w (zone_file cfg) = Some cz" "files w (reverse_zone_file cfg) = Some cr"
    and "reverse_zone_file cfg \<noteq> zone_bak"
    and "length (conf_hosts cfg) < length (conf_domains cfg)"
  shows "run_main w =
    (Inl SystemExit,
     append_out (exc_str IndexError @ [LF] @ zone_hint @ [LF])
      (put_file (zone_file cfg)
         (univ_nl hc @ [LF] @ zone_records (conf_hosts cfg) (conf_domains cfg) @
          domain_line (conf_domains cfg ! length (conf_hosts cfg)))
        (put_file reverse_bak (univ_nl cr) (put_file zone_bak (univ_nl cz) w))))
   \<and> exit_status (fst (run_main w)) = 0"
  using assms
  by (simp add: run_main_def ex_bind_def read_header_ok backup_ok create_zone_file_mismatch_eq
                exit_status_def del: exc_str.simps)

lemma run_main_mismatch_witness:
  "read_config (test_world no_hosts_conf) =
     (Inr \<lparr>zone_file = ''/tmp/z'', reverse_zone_file = ''/tmp/r'', conf_hosts = [],
           conf_domains = [(''example.com.'', ''IN'', ''NS'')]\<rparr>, test_world no_hosts_conf) \<and>
   ''/tmp/r'' \<noteq> zone_bak \<and>
   files (snd (run_main (test_world no_hosts_conf))) ''/tmp/z'' =
     Some (''; header'' @ [LF, LF] @ ''example.com.'' @ [TAB, TAB] @ ''IN'' @ [TAB] @ ''IN'' @ [TAB] @ ''NS'' @ [LF]) \<and>
   files (snd (run_main (test_world no_hosts_conf))) ''/tmp/r'' = Some ''old reverse'' \<and>
   exit_status (fst (run_main (test_world no_hosts_conf))) = 0"
proof -
  let ?cfg = "\<lparr>zone_file = ''/tmp/z'', reverse_zone_file = ''/tmp/r'', conf_hosts = [],
           conf_domains = [(''example.com.'', ''IN'', ''NS'')]\<rparr>"
  have p: "sbind (config_lines cfg_init (py_readlines (univ_nl no_hosts_conf))) config_result = Inr ?cfg"
    by code_simp
  have r: "read_config (test_world no_hosts_conf) = (Inr ?cfg, test_world no_hosts_conf)"
    by (rule read_config_test_world_Inr [OF p])
  have z: "''/tmp/r'' \<noteq> zone_bak" by (simp add: zone_bak_def)
  show ?thesis
    using run_main_mismatch [OF r test_world_files(2), where cz = "''old zone''" and cr = "''old reverse''"]
          r test_world_files(3,4) z
    by (simp add: zone_bak_def reverse_bak_def zone_records_def domain_line_def exit_status_def)
qed

text \<open>C23: when \<^verbatim>\<open>readConfig\<close> raises, the run stops there with that exception and the
  world as it was: nothing is backed up and nothing is written.\<close>

theorem run_main_config_error:
  assumes "fst (read_config w) = Inl e"
  shows "run_main w = (Inl e, w)"
proof -
  have "read_config w = (Inl e, w)"
    using assms read_config_world [of w] by (metis prod.collapse)
  then show ?thesis by (simp add: run_main_def ex_bind_def)
qed

lemma run_main_config_error_witness:
  "fst (read_config \<lparr>files = Map.empty, stdout = []\<rparr>) = Inl (Raise (FileNotFoundError host_conf)) \<and>
   run_main \<lparr>files = Map.empty, stdout = []\<rparr> =
     (Inl (Raise (FileNotFoundError host_conf)), \<lparr>files = Map.empty, stdout = []\<rparr>)"
proof -
  have "fst (read_config \<lparr>files = Map.empty, stdout = []\<rparr>) = Inl (Raise (FileNotFoundError host_conf))"
    by (simp add: read_config_def ex_bind_def)
  then show ?thesis using run_main_config_error by blast
qed

text \<open>C24: a run changes no file but the two backup paths and the two zone files named
  in \<^verbatim>\<open>host.conf\<close>, whatever happens: the configuration and the header are only read.\<close>

theorem run_main_frame:
  assumes "q \<noteq> zone_bak" "q \<noteq> reverse_bak"
    and "\<And>cfg. fst (read_config w) = Inr cfg \<Longrightarrow> q \<noteq> zone_file cfg \<and> q \<noteq> reverse_zone_file cfg"
  shows "files (snd (run_main w)) q = files w q"
  unfolding run_main_def
  apply (rule files_bind_frame, simp add: read_config_world)
  subgoal for cfg
    using assms(3) [of cfg]
    by (auto intro!: files_bind_frame writes_onlyD [OF create_zone_file_writes_only]
                     writes_onlyD [OF create_reverse_zone_file_writes_only]
             simp: read_config_world read_header_world backup_frame assms(1,2))
  done

lemma run_main_frame_witness:
  "host_conf \<noteq> zone_bak \<and> host_conf \<noteq> reverse_bak \<and>
   fst (read_config example_world) = Inr example_cfg \<and>
   host_conf \<noteq> zone_file example_cfg \<and> host_conf \<noteq> reverse_zone_file example_cfg \<and>
   files (snd (run_main example_world)) host_conf = Some example_conf"
proof -
  have n: "host_conf \<noteq> zone_bak" "host_conf \<noteq> reverse_bak"
    "host_conf \<noteq> zone_file example_cfg" "host_conf \<noteq> reverse_zone_file example_cfg"
    by (simp_all add: host_conf_def zone_bak_def reverse_bak_def)
  have "files (snd (run_main example_world)) host_conf = files example_world host_conf"
    using run_main_frame [of host_conf example_world] n read_config_example by simp
  then show ?thesis using n read_config_example example_files(1) by simp
qed

text \<open>C25: the handler the code marks "should never happen" is reached from
  \<^verbatim>\<open>host.conf\<close> alone: the parser accepts any token as a host's value, and a value
  with fewer than three dot-separated fields lets the forward zone file be written in
  full, then stops the reverse zone file after the hosts before it, printing the message
  and exiting with status 0.\<close>

theorem run_main_reverse_malformed:
  assumes "read_config w = (Inr cfg, w)" "files w header_path = Some hc"
    and "files w (zone_file cfg) = Some cz" "files w (reverse_zone_file cfg) = Some cr"
    and "reverse_zone_file cfg \<noteq> zone_bak"
    and "length (conf_domains cfg) \<le> length (conf_hosts cfg)"
    and "k < length (conf_hosts cfg)" "\<forall>i < k. octets_ok (conf_hosts cfg ! i)"
    and "\<not> octets_ok (conf_hosts cfg ! k)"
  shows "run_main w =
    (Inl SystemExit,
     append_out (exc_str IndexError @ [LF] @ reverse_hint @ [LF])
      (put_file (reverse_zone_file cfg) (univ_nl hc @ [LF] @ reverse_records (take k (conf_hosts cfg)))
        (put_file (zone_file cfg) (univ_nl hc @ [LF] @ zone_records (conf_hosts cfg) (conf_domains cfg))
          (put_file reverse_bak (univ_nl cr) (put_file zone_bak (univ_nl cz) w)))))
   \<and> exit_status (fst (run_main w)) = 0"
  using assms
  by (simp add: run_main_def ex_bind_def read_header_ok backup_ok create_zone_file_ok
                create_reverse_zone_file_stop exit_status_def del: exc_str.simps)

lemma run_main_reverse_malformed_witness:
  "read_config (test_world bad_ip_conf) =
     (Inr \<lparr>zone_file = ''/tmp/z'', reverse_zone_file = ''/tmp/r'',
           conf_hosts = [(''ns.example.com.'', ''IN'', ''10.0'')],
           conf_domains = [(''example.com.'', ''IN'', ''NS'')]\<rparr>, test_world bad_ip_conf) \<and>
   ''/tmp/r'' \<noteq> zone_bak \<and> \<not> octets_ok (''ns.example.com.'', ''IN'', ''10.0'') \<and>
   fst (run_main (test_world bad_ip_conf)) = Inl SystemExit \<and>
   exit_status (fst (run_main (test_world bad_ip_conf))) = 0 \<and>
   stdout (snd (run_main (test_world bad_ip_conf))) = ''list index out of range'' @ [LF] @ reverse_hint @ [LF] \<and>
   files (snd (run_main (test_world bad_ip_conf))) ''/tmp/r'' = Some (''; header'' @ [LF, LF]) \<and>
   files (snd (run_main (test_world bad_ip_conf))) ''/tmp/z'' =
     Some (''; header'' @ [LF, LF] @ ''example.com.'' @ [TAB, TAB] @ ''IN'' @ [TAB] @ ''IN'' @ [TAB] @ ''NS'' @ [LF] @
           ''ns.example.com.  '' @ [TAB] @ ''IN'' @ [TAB] @ ''IN'' @ [TAB] @ ''10.0'' @ [LF])"
proof -
  let ?cfg = "\<lparr>zone_file = ''/tmp/z'', reverse_zone_file = ''/tmp/r'',
           conf_hosts = [(''ns.example.com.'', ''IN'', ''10.0'')],
           conf_domains = [(''example.com.'', ''IN'', ''NS'')]\<rparr>"
  have p: "sbind (config_lines cfg_init (py_readlines (univ_nl bad_ip_conf))) config_result = Inr ?cfg"
    by code_simp
  have r: "read_config (test_world bad_ip_conf) = (Inr ?cfg, test_world bad_ip_conf)"
    by (rule read_config_test_world_Inr [OF p])
  have z: "''/tmp/r'' \<noteq> zone_bak" by (simp add: zone_bak_def)
  have b: "\<not> octets_ok (''ns.example.com.'', ''IN'', ''10.0'')" by (simp add: octets_ok_def)
  show ?thesis
    using run_main_reverse_malformed [OF r test_world_files(2), where cz = "''old zone''" and cr = "''old reverse''"
            and k = 0] r test_world_files(3,4,5) z b
    by (simp add: zone_bak_def reverse_bak_def zone_records_def domain_line_def host_line_def
                  reverse_records_def exit_status_def)
qed

text \<open>A missing \<^verbatim>\<open>header.conf\<close> stops the run after the configuration is read and
  before anything is backed up or written; the process exits with status 1.\<close>

lemma run_main_missing_header:
  assumes "read_config w = (Inr cfg, w)" "files w header_path = None"
  shows "run_main w = (Inl (Raise (FileNotFoundError header_path)), w) \<and> exit_status (fst (run_main w)) = 1"
  using assms by (simp add: run_main_def ex_bind_def read_header_missing exit_status_def)

subsection \<open>The outcome of a run\<close>

lemma hints_differ: "zone_hint \<noteq> reverse_hint"
  by (simp add: zone_hint_def reverse_hint_def)

lemma config_result_outcome: "config_result st = Inl e \<Longrightarrow> exc_outcome e = ConfigFault e"
  by (auto simp: config_result_def split: option.splits)

lemma run_main_after_backup:
  assumes "read_config w = (Inr cfg, w)" "files w header_path = Some hc"
    and "backup (Some (zone_file cfg)) (Some (reverse_zone_file cfg)) w = (Inr (), w2)"
  shows "run_main w =
    ex_bind (create_zone_file (zone_file cfg) (py_readlines (univ_nl hc)) (conf_hosts cfg) (conf_domains cfg))
      (\<lambda>_. create_reverse_zone_file (reverse_zone_file cfg) (py_readlines (univ_nl hc)) (conf_hosts cfg) (conf_domains cfg)) w2"
  using assms by (simp add: run_main_def ex_bind_apply read_header_ok)

lemma generators_outcome:
  assumes "read_config w = (Inr cfg, w)" "files w header_path = Some hc"
    and "backup (Some (zone_file cfg)) (Some (reverse_zone_file cfg)) w = (Inr (), w2)" "stdout w2 = stdout w"
  shows "observe w (run_main w) =
    (if length (conf_hosts cfg) < length (conf_domains cfg) then RecordMismatch
     else if \<not> list_all octets_ok (conf_hosts cfg) then MalformedAddress else Completed)"
proof -
  note pre = run_main_after_backup [OF assms(1-3)]
  consider (mm) "length (conf_hosts cfg) < length (conf_domains cfg)"
    | (bad) "\<not> length (conf_hosts cfg) < length (conf_domains cfg)" "\<not> list_all octets_ok (conf_hosts cfg)"
    | (ok) "\<not> length (conf_hosts cfg) < length (conf_domains cfg)" "list_all octets_ok (conf_hosts cfg)"
    by blast
  then show ?thesis
  proof cases
    case mm
    then show ?thesis
      using assms(4) by (simp add: pre ex_bind_def create_zone_file_mismatch_eq observe_def del: exc_str.simps)
  next
    case bad
    then obtain s where
      "create_reverse_zone_file (reverse_zone_file cfg) (py_readlines (univ_nl hc)) (conf_hosts cfg) (conf_domains cfg)
         (put_file (zone_file cfg) (concat (py_readlines (univ_nl hc)) @ [LF] @ zone_records (conf_hosts cfg) (conf_domains cfg)) w2) =
       (Inl SystemExit, append_out (exc_str IndexError @ [LF] @ reverse_hint @ [LF])
         (put_file (reverse_zone_file cfg) s
           (put_file (zone_file cfg) (concat (py_readlines (univ_nl hc)) @ [LF] @ zone_records (conf_hosts cfg) (conf_domains cfg)) w2)))"
      using create_reverse_zone_file_some_bad by blast
    with bad show ?thesis
      using assms(4) hints_differ
      by (simp add: pre ex_bind_def create_zone_file_ok observe_def del: exc_str.simps concat_py_readlines)
  next
    case ok
    then show ?thesis
      by (simp add: pre ex_bind_def create_zone_file_ok create_reverse_zone_file_ok observe_def list_all_iff)
  qed
qed

lemma run_main_after_config:
  assumes "read_config w = (Inr cfg, w)"
  shows "observe w (run_main w) = files_outcome w cfg"
proof (cases "files w header_path")
  case None
  then show ?thesis
    using run_main_missing_header [OF assms None] by (simp add: observe_def files_outcome_def)
next
  case (Some hc)
  note h = Some
  show ?thesis
  proof (cases "files w (zone_file cfg)")
    case None
    then show ?thesis
      using assms h
      by (simp add: run_main_def ex_bind_def read_header_ok backup_def backup_file_missing observe_def
                    files_outcome_def)
  next
    case (Some cz)
    note z = Some
    show ?thesis
    proof (cases "files (put_file zone_bak (univ_nl cz) w) (reverse_zone_file cfg)")
      case None
      then have "reverse_zone_file cfg \<noteq> zone_bak \<and> files w (reverse_zone_file cfg) = None"
        by (auto split: if_splits)
      then show ?thesis
        using assms h z None
        by (simp add: run_main_def ex_bind_def read_header_ok backup_reverse_missing observe_def
                      files_outcome_def)
    next
      case (Some cr)
      then have "\<not> (reverse_zone_file cfg \<noteq> zone_bak \<and> files w (reverse_zone_file cfg) = None)"
        by (auto split: if_splits)
      then show ?thesis
        using generators_outcome [OF assms h backup_after_zone [OF z Some]] h z
        by (simp add: files_outcome_def)
    qed
  qed
qed

lemma run_main_outcome: "observe w (run_main w) = expected_outcome w"
proof (cases "files w host_conf")
  case None
  then have "read_config w = (Inl (Raise (FileNotFoundError host_conf)), w)"
    by (simp add: read_config_def ex_bind_def)
  then show ?thesis
    using None by (simp add: run_main_def ex_bind_def observe_def expected_outcome_def)
next
  case (Some c)
  let ?ts = "map line_tokens (py_readlines (univ_nl c))"
  note rc = read_config_apply [OF Some]
  show ?thesis
  proof (cases "list_all line_ok ?ts")
    case False
    then have nok: "\<not> (\<forall>l \<in> set (py_readlines (univ_nl c)). line_ok (line_tokens l))"
      by (simp add: list_all_iff)
    have "read_config w = (Inl (Raise IndexError), w)"
      by (simp only: rc config_lines_spec if_not_P [OF nok] sbind_simps ex_lift_simps ex_raise_apply)
    then show ?thesis
      using Some False by (simp add: run_main_def ex_bind_def observe_def expected_outcome_def)
  next
    case True
    show ?thesis
    proof (cases "config_result (config_spec cfg_init ?ts)")
      case (Inl e)
      then have "read_config w = (Inl (Raise e), w)"
        using rc True by (simp add: config_lines_spec list_all_iff)
      then show ?thesis
        using Some True Inl config_result_outcome [OF Inl]
        by (simp add: run_main_def ex_bind_def observe_def expected_outcome_def)
    next
      case (Inr cfg)
      then have "read_config w = (Inr cfg, w)"
        using rc True by (simp add: config_lines_spec list_all_iff)
      then show ?thesis
        using Some True Inr run_main_after_config by (simp add: expected_outcome_def)
    qed
  qed
qed

lemma exit_status_observe:
  "exit_status (fst r) = (case observe w r of MissingResource _ \<Rightarrow> 1 | ConfigFault _ \<Rightarrow> 1 | _ \<Rightarrow> 0)"
proof (cases "fst r")
  case (Inl a)
  then show ?thesis
  proof (cases a)
    case (Raise e)
    with Inl show ?thesis by (cases e) (simp_all add: exit_status_def observe_def)
  qed (simp add: exit_status_def observe_def)
qed (simp add: exit_status_def observe_def)

text \<open>C30: the run refines the specification's error model: what an operator observes of
  it (the exception, or which message preceded \<^verbatim>\<open>exit()\<close>) is the outcome predicted
  from the inputs alone, through the abstract reading of \<^verbatim>\<open>host.conf\<close> and the files
  present, for every world.\<close>

theorem run_main_refines_outcome: "observe w (run_main w) = expected_outcome w"
  by (rule run_main_outcome)

lemma run_main_refines_outcome_witness:
  "expected_outcome (test_world bad_ip_conf) = MalformedAddress \<and>
   observe (test_world bad_ip_conf) (run_main (test_world bad_ip_conf)) = MalformedAddress"
proof -
  have e: "expected_outcome (test_world bad_ip_conf) = MalformedAddress" by code_simp
  then show ?thesis using run_main_refines_outcome [of "test_world bad_ip_conf"] by simp
qed

text \<open>C31: the exit status follows the error class: 1 exactly for a missing file or a
  configuration fault (an uncaught exception), 0 for a completed run and for the two
  faults the generators catch before calling \<^verbatim>\<open>exit()\<close>.\<close>

theorem run_main_exit_by_outcome:
  "exit_status (fst (run_main w)) =
     (case expected_outcome w of MissingResource _ \<Rightarrow> 1 | ConfigFault _ \<Rightarrow> 1 | _ \<Rightarrow> 0)"
  using exit_status_observe [of "run_main w" w] run_main_outcome [of w] by simp

lemma run_main_exit_by_outcome_witness:
  "expected_outcome (test_world new_zone_conf) = MissingResource ''/tmp/new'' \<and>
   exit_status (fst (run_main (test_world new_zone_conf))) = 1"
proof -
  have e: "expected_outcome (test_world new_zone_conf) = MissingResource ''/tmp/new''" by code_simp
  then show ?thesis using run_main_exit_by_outcome [of "test_world new_zone_conf"] by simp
qed

subsection \<open>The parser on the test configurations\<close>

lemma read_config_spec_witness:
  "read_config example_world = (Inr example_cfg, example_world)"
proof -
  obtain st where p: "config_lines cfg_init (py_readlines (univ_nl example_conf)) = Inr st"
    and r: "config_result st = Inr example_cfg"
    using example_parse by auto
  have ok: "\<forall>l \<in> set (py_readlines (univ_nl example_conf)). line_ok (line_tokens l)"
    and sp: "st = config_spec cfg_init (map line_tokens (py_readlines (univ_nl example_conf)))"
    using config_lines_Inr [OF p] by simp_all
  show ?thesis
    using read_config_spec [of example_world] example_files(1) ok sp r by (simp add: example_world_def)
qed

lemma read_config_unbound_witness:
  "files (test_world no_zone_conf) host_conf = Some no_zone_conf \<and>
   read_config (test_world no_zone_conf) = (Inl (Raise (UnboundLocalError ''zoneFile'')), test_world no_zone_conf)"
proof -
  have p: "config_lines cfg_init (py_readlines (univ_nl no_zone_conf)) =
     Inr \<lparr>cfg_zone = None, cfg_reverse = Some ''/tmp/r'',
          cfg_hosts = [(''ns.example.com.'', ''IN'', ''192.168.1.1'')], cfg_domains = []\<rparr>"
    by code_simp
  have ok: "\<forall>l \<in> set (py_readlines (univ_nl no_zone_conf)). line_ok (line_tokens l)"
    using config_lines_Inr [OF p] by simp
  have "cfg_zone (config_spec cfg_init (map line_tokens (py_readlines (univ_nl no_zone_conf)))) = None"
    using config_lines_Inr [OF p] by (metis cfg_state.select_convs(1))
  then have nz: "\<forall>l \<in> set (py_readlines (univ_nl no_zone_conf)). \<not> is_kw ''ZONE_FILE:'' (line_tokens l)"
    using config_spec_no_zone by fastforce
  show ?thesis
    using read_config_unbound [OF test_world_files(1) ok nz] test_world_files(1) by simp
qed

lemma read_config_short_line_witness:
  "files (test_world short_host_conf) host_conf = Some short_host_conf \<and>
   ''HOST: ns.example.com. IN'' @ [LF] \<in> set (py_readlines (univ_nl short_host_conf)) \<and>
   \<not> line_ok (line_tokens (''HOST: ns.example.com. IN'' @ [LF])) \<and>
   read_config (test_world short_host_conf) = (Inl (Raise IndexError), test_world short_host_conf)"
proof -
  have m: "''HOST: ns.example.com. IN'' @ [LF] \<in> set (py_readlines (univ_nl short_host_conf))"
    by code_simp
  have t: "line_tokens (''HOST: ns.example.com. IN'' @ [LF]) = [''HOST:'', ''ns.example.com.'', ''IN'']"
    by code_simp
  have b: "\<not> line_ok (line_tokens (''HOST: ns.example.com. IN'' @ [LF]))"
    unfolding t by (simp add: line_ok_def is_kw_def)
  show ?thesis
    using read_config_short_line [OF test_world_files(1) m b] test_world_files(1) m b by simp
qed

lemma read_config_last_wins_witness:
  "read_config (test_world two_zones_conf) =
     (Inr \<lparr>zone_file = ''/tmp/z'', reverse_zone_file = ''/tmp/r'', conf_hosts = [], conf_domains = []\<rparr>,
      test_world two_zones_conf) \<and>
   filter (is_kw ''ZONE_FILE:'') (map line_tokens (py_readlines (univ_nl two_zones_conf))) =
     [[''ZONE_FILE:'', ''/tmp/a'']] @ [[''ZONE_FILE:'', ''/tmp/z'']] \<and>
   zone_file \<lparr>zone_file = ''/tmp/z'', reverse_zone_file = ''/tmp/r'', conf_hosts = [], conf_domains = []\<rparr> =
     [''ZONE_FILE:'', ''/tmp/z''] ! 1"
proof -
  let ?cfg = "\<lparr>zone_file = ''/tmp/z'', reverse_zone_file = ''/tmp/r'', conf_hosts = [], conf_domains = []\<rparr>"
  have p: "sbind (config_lines cfg_init (py_readlines (univ_nl two_zones_conf))) config_result = Inr ?cfg"
    by code_simp
  have r: "read_config (test_world two_zones_conf) = (Inr ?cfg, test_world two_zones_conf)"
    by (rule read_config_test_world_Inr [OF p])
  have ts: "map line_tokens (py_readlines (univ_nl two_zones_conf)) =
     [[''ZONE_FILE:'', ''/tmp/a''], [''ZONE_FILE:'', ''/tmp/z''], [''REVERSE_ZONE_FILE:'', ''/tmp/r'']]"
    by code_simp
  have f: "filter (is_kw ''ZONE_FILE:'') (map line_tokens (py_readlines (univ_nl two_zones_conf))) =
     [[''ZONE_FILE:'', ''/tmp/a'']] @ [[''ZONE_FILE:'', ''/tmp/z'']]"
    by (simp add: ts is_kw_def)
  show ?thesis
    using read_config_last_wins [OF r test_world_files(1) f] r f by simp
qed

end
